theory Spec2Isabelle
  imports Main
begin

section \<open>rest_file_command: the service handler of a REST file upload command\<close>

text \<open>
  The development embeds \<^verbatim>\<open>custom_components/rest_file_command/__init__.py\<close>.
  The handler \<^verbatim>\<open>async_service_handler\<close> talks to four collaborators that are not
  part of the component: the template engine, the filesystem, the HTTP client session and
  the logger. The collaborators are a parameter of the model (a record of functions, the
  \<open>world\<close>), every call the handler makes to one of them is recorded in a trace of
  events in the order of the calls, and every exception is a value: the handler returns
  \<open>Inl e\<close> where the Python raises \<open>e\<close> and \<open>Inr v\<close> where it returns \<open>v\<close>.
\<close>

subsection \<open>Values, exceptions and configuration\<close>

text \<open>
  The values of \<^verbatim>\<open>service.data\<close> that the model distinguishes: a string, and
  \<^verbatim>\<open>None\<close>, which is also what \<^verbatim>\<open>service.data.get("file")\<close> gives for a
  missing key. The other values a caller can send (numbers, lists, mappings) are left
  out: nothing below is about them.
\<close>

datatype pyval = PStr string | PNone

type_synonym template = string

type_synonym handle = nat

datatype json = JNull | JBool bool | JNum int | JStr string
  | JArr "json list" | JObj "(string \<times> json) list"

text \<open>
  \<^verbatim>\<open>HomeAssistantError\<close> is raised either with a message or with a translation
  domain, a translation key and placeholders.
\<close>

datatype ha_error =
    Message string
  | Translated string string "(string \<times> string) list"

text \<open>
  The exception classes that the handler raises, catches or lets through.
  \<open>ServerTimeoutError\<close> is aiohttp's class that inherits from both
  \<^verbatim>\<open>aiohttp.ClientError\<close> and \<^verbatim>\<open>TimeoutError\<close>; \<open>OSError\<close> stands for the
  errors of \<^verbatim>\<open>open\<close> that are not timeouts (a directory, a missing permission).
\<close>

datatype exn =
    TemplateError
  | TypeError
  | OSError
  | TimeoutError
  | ClientError
  | ServerTimeoutError
  | JSONDecodeError
  | AttributeError
  | UnicodeDecodeError
  | KeyError
  | HomeAssistantError ha_error

fun is_TimeoutError :: "exn \<Rightarrow> bool" where
  "is_TimeoutError TimeoutError = True"
| "is_TimeoutError ServerTimeoutError = True"
| "is_TimeoutError _ = False"

fun is_ClientError :: "exn \<Rightarrow> bool" where
  "is_ClientError ClientError = True"
| "is_ClientError ServerTimeoutError = True"
| "is_ClientError _ = False"

text \<open>
  \<^verbatim>\<open>TemplateError\<close> is a subclass of \<^verbatim>\<open>HomeAssistantError\<close> in the host; the other
  classes are not.
\<close>

fun is_HomeAssistantError :: "exn \<Rightarrow> bool" where
  "is_HomeAssistantError (HomeAssistantError _) = True"
| "is_HomeAssistantError TemplateError = True"
| "is_HomeAssistantError _ = False"

datatype rest_method = Get | Patch | Post | Put | Delete

text \<open>
  One validated entry of the configuration (\<^verbatim>\<open>COMMAND_SCHEMA\<close>): the optional keys are
  options, the keys with a default are always present.
\<close>

record command_config =
  conf_url :: template
  conf_method :: rest_method
  conf_headers :: "(string \<times> template) list option"
  conf_username :: "string option"
  conf_password :: "string option"
  conf_timeout :: int
  conf_content_type :: "string option"
  conf_verify_ssl :: bool

record service_call =
  data :: "string \<rightharpoonup> pyval"
  return_response :: bool

subsection \<open>The collaborators\<close>

datatype content = JsonContent json | TextContent string

text \<open>
  A response of the HTTP client: its status, URL and content type, and what
  \<^verbatim>\<open>await response.json()\<close> and \<^verbatim>\<open>await response.text()\<close> would give if called.
\<close>

record response =
  resp_status :: int
  resp_url :: string
  resp_content_type :: string
  resp_json :: "exn + json"
  resp_text :: "exn + string"

record request =
  req_method :: rest_method
  req_url :: string
  req_data :: "(string \<times> handle) list"
  req_auth :: "(string \<times> string) option"
  req_headers :: "(string \<times> string) list option"
  req_timeout :: int
  req_verify_ssl :: bool

text \<open>
  What the client session does with one request: it raises or gives a response, and it
  has or has not closed the file object it was given as form data by the time control is
  back in the handler.
\<close>

record reply =
  outcome :: "exn + response"
  closes_file :: bool

record world =
  render :: "template \<Rightarrow> (string \<rightharpoonup> pyval) \<Rightarrow> exn + string"
  stat_ok :: "string \<Rightarrow> bool"
  open_rb :: "string \<Rightarrow> exn + handle"
  send :: "request \<Rightarrow> reply"

datatype level = Debug | Warning

datatype event =
    RenderUrl template
  | PathExists pyval
  | RenderHeader string template
  | FileOpen pyval
  | Request request
  | FileClose handle
  | Log level string int
  | LogError exn
  | ReadJson
  | ReadText
  | ExitResponse

type_synonym 'a outcome = "(exn + 'a) \<times> event list"

subsection \<open>Python primitives used by the handler\<close>

text \<open>
  \<^verbatim>\<open>os.path.exists(path)\<close> calls \<^verbatim>\<open>os.stat(path)\<close> and turns an \<^verbatim>\<open>OSError\<close>
  or \<^verbatim>\<open>ValueError\<close> into \<^verbatim>\<open>False\<close>; \<^verbatim>\<open>os.stat(None)\<close> raises \<^verbatim>\<open>TypeError\<close>,
  which is not caught.
\<close>

fun os_path_exists :: "world \<Rightarrow> pyval \<Rightarrow> exn + bool" where
  "os_path_exists w (PStr p) = Inr (stat_ok w p)"
| "os_path_exists w PNone = Inl TypeError"

fun py_open :: "world \<Rightarrow> pyval \<Rightarrow> exn + handle" where
  "py_open w (PStr p) = open_rb w p"
| "py_open w PNone = Inl TypeError"

text \<open>The formatting of a value in an f-string.\<close>

fun py_str :: "pyval \<Rightarrow> string" where
  "py_str (PStr p) = p"
| "py_str PNone = ''None''"

text \<open>
  \<^verbatim>\<open>d[k] = v\<close> on a dictionary kept in insertion order: an existing key keeps its
  place and takes the new value, a new key goes to the end.
\<close>

primrec dict_set :: "'k \<Rightarrow> 'v \<Rightarrow> ('k \<times> 'v) list \<Rightarrow> ('k \<times> 'v) list" where
  "dict_set k v [] = [(k, v)]"
| "dict_set k v (p # ps) = (if fst p = k then (k, v) # ps else p # dict_set k v ps)"

text \<open>\<^verbatim>\<open>d.get(k)\<close>, with \<^verbatim>\<open>None\<close> for a missing key.\<close>

definition dict_get :: "(string \<rightharpoonup> pyval) \<Rightarrow> string \<Rightarrow> pyval" where
  "dict_get d k = (case d k of None \<Rightarrow> PNone | Some v \<Rightarrow> v)"

subsection \<open>Constants of the module\<close>

definition DOMAIN :: string where
  "DOMAIN = ''rest_file_command''"

definition CONTENT_TYPE :: string where
  "CONTENT_TYPE = ''Content-Type''"

definition BAD_REQUEST :: int where
  "BAD_REQUEST = 400"

definition SERVICE_RELOAD :: string where
  "SERVICE_RELOAD = ''reload''"

subsection \<open>The errors the handler raises\<close>

definition file_not_found :: "pyval \<Rightarrow> exn" where
  "file_not_found file_path =
     HomeAssistantError (Message (''File not found: '' @ py_str file_path))"

definition decoding_error :: "string \<Rightarrow> string \<Rightarrow> exn" where
  "decoding_error request_url decoding_type =
     HomeAssistantError (Translated DOMAIN ''decoding_error''
       [(''request_url'', request_url), (''decoding_type'', decoding_type)])"

definition timeout_error :: "string \<Rightarrow> exn" where
  "timeout_error request_url =
     HomeAssistantError (Translated DOMAIN ''timeout'' [(''request_url'', request_url)])"

definition client_error :: "string \<Rightarrow> exn" where
  "client_error request_url =
     HomeAssistantError (Translated DOMAIN ''client_error'' [(''request_url'', request_url)])"

subsection \<open>What \<^verbatim>\<open>async_register_rest_command\<close> captures for the handler\<close>

definition auth_of :: "command_config \<Rightarrow> (string \<times> string) option" where
  "auth_of c =
     (case conf_username c of
        None \<Rightarrow> None
      | Some username \<Rightarrow>
          Some (username, (case conf_password c of None \<Rightarrow> '''' | Some password \<Rightarrow> password)))"

definition template_headers_of :: "command_config \<Rightarrow> (string \<times> template) list" where
  "template_headers_of c = (case conf_headers c of None \<Rightarrow> [] | Some hs \<Rightarrow> hs)"

subsection \<open>The handler\<close>

text \<open>
  The loop over \<^verbatim>\<open>template_headers.items()\<close>: each template is rendered in turn and
  stored under its name; the first rendering that raises ends the loop and the handler.
\<close>

fun render_headers ::
  "world \<Rightarrow> (string \<rightharpoonup> pyval) \<Rightarrow> (string \<times> template) list \<Rightarrow> (string \<times> string) list
     \<Rightarrow> (string \<times> string) list outcome" where
  "render_headers w d [] headers = (Inr headers, [])"
| "render_headers w d ((header_name, template_header) # rest) headers =
     (case render w template_header d of
        Inl e \<Rightarrow> (Inl e, [RenderHeader header_name template_header])
      | Inr v \<Rightarrow>
          (case render_headers w d rest (dict_set header_name v headers) of
             (r, evs) \<Rightarrow> (r, RenderHeader header_name template_header # evs)))"

text \<open>\<^verbatim>\<open>if content_type: headers[hdrs.CONTENT_TYPE] = content_type\<close>: an empty string is false.\<close>

definition apply_content_type ::
  "string option \<Rightarrow> (string \<times> string) list \<Rightarrow> (string \<times> string) list" where
  "apply_content_type content_type headers =
     (case content_type of
        None \<Rightarrow> headers
      | Some ct \<Rightarrow> if ct \<noteq> [] then dict_set CONTENT_TYPE ct headers else headers)"

text \<open>\<^verbatim>\<open>headers or None\<close>: an empty dictionary is false.\<close>

definition or_None :: "(string \<times> string) list \<Rightarrow> (string \<times> string) list option" where
  "or_None headers = (if headers = [] then None else Some headers)"

record service_response =
  content :: content
  status :: int

text \<open>
  The body of the \<^verbatim>\<open>async with\<close> block: the log line, the early return when no
  response is wanted, and the decoding with its two \<^verbatim>\<open>except\<close> clauses, tried in the
  order of the source. An exception that neither clause names leaves the block as it is.
\<close>

definition log_status :: "response \<Rightarrow> event" where
  "log_status r =
     (if resp_status r < BAD_REQUEST
      then Log Debug (resp_url r) (resp_status r)
      else Log Warning (resp_url r) (resp_status r))"

definition read_body :: "response \<Rightarrow> (exn + content) \<times> event list" where
  "read_body r =
     (if resp_content_type r = ''application/json''
      then (case resp_json r of Inl e \<Rightarrow> Inl e | Inr j \<Rightarrow> Inr (JsonContent j), [ReadJson])
      else (case resp_text r of Inl e \<Rightarrow> Inl e | Inr t \<Rightarrow> Inr (TextContent t), [ReadText]))"

definition handle_response ::
  "service_call \<Rightarrow> string \<Rightarrow> response \<Rightarrow> service_response option outcome" where
  "handle_response s request_url r =
     (if \<not> return_response s then (Inr None, [log_status r])
      else
        (case read_body r of
           (Inl e, evs) \<Rightarrow>
             (if e = JSONDecodeError \<or> e = AttributeError
              then (Inl (decoding_error request_url ''JSON''), log_status r # evs)
              else if e = UnicodeDecodeError
              then (Inl (decoding_error request_url ''text''), log_status r # evs)
              else (Inl e, log_status r # evs))
         | (Inr c, evs) \<Rightarrow>
             (Inr (Some \<lparr>content = c, status = resp_status r\<rparr>), log_status r # evs)))"

text \<open>
  The body of the outer \<^verbatim>\<open>try\<close>: the file is opened, the request is made with the
  file object as the form field \<^verbatim>\<open>file\<close>, and the response is handled inside the
  context manager, which is left on every way out of its block. The handler has no
  statement that closes the file object; the trace holds a \<open>FileClose\<close> exactly when
  the client session reports that it closed it.
\<close>

definition make_request ::
  "command_config \<Rightarrow> string \<Rightarrow> handle \<Rightarrow> (string \<times> string) list \<Rightarrow> request" where
  "make_request c request_url h headers =
     \<lparr>req_method = conf_method c,
      req_url = request_url,
      req_data = [(''file'', h)],
      req_auth = auth_of c,
      req_headers = or_None headers,
      req_timeout = conf_timeout c,
      req_verify_ssl = conf_verify_ssl c\<rparr>"

definition transport_events :: "request \<Rightarrow> handle \<Rightarrow> reply \<Rightarrow> event list" where
  "transport_events req h rp = Request req # (if closes_file rp then [FileClose h] else [])"

definition try_body ::
  "world \<Rightarrow> command_config \<Rightarrow> service_call \<Rightarrow> string \<Rightarrow> pyval \<Rightarrow> (string \<times> string) list
     \<Rightarrow> service_response option outcome" where
  "try_body w c s request_url file_path headers =
     (case py_open w file_path of
        Inl e \<Rightarrow> (Inl e, [FileOpen file_path])
      | Inr h \<Rightarrow>
          (let req = make_request c request_url h headers; rp = send w req in
           (case outcome rp of
              Inl e \<Rightarrow> (Inl e, FileOpen file_path # transport_events req h rp)
            | Inr r \<Rightarrow>
                (case handle_response s request_url r of
                   (res, evs) \<Rightarrow>
                     (res, FileOpen file_path # transport_events req h rp
                             @ evs @ [ExitResponse])))))"

text \<open>
  The two outer \<^verbatim>\<open>except\<close> clauses, in the order of the source: \<^verbatim>\<open>TimeoutError\<close>
  first, then \<^verbatim>\<open>aiohttp.ClientError\<close>, which also logs. Any other exception goes on
  to the caller.
\<close>

definition try_send ::
  "world \<Rightarrow> command_config \<Rightarrow> service_call \<Rightarrow> string \<Rightarrow> pyval \<Rightarrow> (string \<times> string) list
     \<Rightarrow> service_response option outcome" where
  "try_send w c s request_url file_path headers =
     (case try_body w c s request_url file_path headers of
        (Inr v, evs) \<Rightarrow> (Inr v, evs)
      | (Inl err, evs) \<Rightarrow>
          (if is_TimeoutError err then (Inl (timeout_error request_url), evs)
           else if is_ClientError err
           then (Inl (client_error request_url), evs @ [LogError err])
           else (Inl err, evs)))"

definition async_service_handler ::
  "world \<Rightarrow> command_config \<Rightarrow> service_call \<Rightarrow> service_response option outcome" where
  "async_service_handler w c s =
     (case render w (conf_url c) (data s) of
        Inl e \<Rightarrow> (Inl e, [RenderUrl (conf_url c)])
      | Inr request_url \<Rightarrow>
          (let file_path = dict_get (data s) ''file'' in
           (case os_path_exists w file_path of
              Inl e \<Rightarrow> (Inl e, [RenderUrl (conf_url c), PathExists file_path])
            | Inr False \<Rightarrow>
                (Inl (file_not_found file_path), [RenderUrl (conf_url c), PathExists file_path])
            | Inr True \<Rightarrow>
                (case render_headers w (data s) (template_headers_of c) [] of
                   (Inl e, evs) \<Rightarrow>
                     (Inl e, [RenderUrl (conf_url c), PathExists file_path] @ evs)
                 | (Inr rendered, evs) \<Rightarrow>
                     (case try_send w c s request_url file_path
                             (apply_content_type (conf_content_type c) rendered) of
                        (res, evs') \<Rightarrow>
                          (res, [RenderUrl (conf_url c), PathExists file_path]
                                  @ evs @ evs'))))))"

fun is_Request :: "event \<Rightarrow> bool" where
  "is_Request (Request _) = True"
| "is_Request _ = False"

subsection \<open>The service registry: setup and reload\<close>

text \<open>
  The services of the domain in the host's registry, a dictionary from the service name
  to its handler: the handler of a REST command is determined by the configuration it
  was created from.
\<close>

datatype service = RestCommand command_config | ReloadService

type_synonym registry = "(string \<times> service) list"

definition async_remove :: "string \<Rightarrow> registry \<Rightarrow> registry" where
  "async_remove name reg = filter (\<lambda>p. fst p \<noteq> name) reg"

definition async_register_rest_command ::
  "string \<Rightarrow> command_config \<Rightarrow> registry \<Rightarrow> registry" where
  "async_register_rest_command name command_config reg =
     dict_set name (RestCommand command_config) reg"

fun register_commands :: "(string \<times> command_config) list \<Rightarrow> registry \<Rightarrow> registry" where
  "register_commands [] reg = reg"
| "register_commands ((name, command_config) # rest) reg =
     register_commands rest (async_register_rest_command name command_config reg)"

fun remove_existing :: "string list \<Rightarrow> registry \<Rightarrow> registry" where
  "remove_existing [] reg = reg"
| "remove_existing (existing_service # rest) reg =
     (if existing_service = SERVICE_RELOAD then remove_existing rest reg
      else remove_existing rest (async_remove existing_service reg))"

text \<open>
  A configuration is a dictionary of which the module reads one key, its domain; the
  value under it is the dictionary of the commands. \<^verbatim>\<open>conf[DOMAIN]\<close> raises
  \<^verbatim>\<open>KeyError\<close> when the key is missing.
\<close>

type_synonym config = "string \<rightharpoonup> (string \<times> command_config) list"

text \<open>
  \<^verbatim>\<open>reload_service_handler\<close>, given what \<^verbatim>\<open>async_integration_yaml_config\<close> returned
  (\<open>None\<close> when the configuration cannot be parsed) and the registry at that moment.
  It returns the exception or \<^verbatim>\<open>None\<close>, and the registry it leaves. The services are
  removed before \<^verbatim>\<open>conf[DOMAIN]\<close> is evaluated, so a missing key raises after the
  removals.
\<close>

definition reload_service_handler ::
  "config option \<Rightarrow> registry \<Rightarrow> (exn + unit) \<times> registry" where
  "reload_service_handler conf reg =
     (case conf of
        None \<Rightarrow> (Inr (), reg)
      | Some conf' \<Rightarrow>
          (let removed = remove_existing (map fst reg) reg in
           (case conf' DOMAIN of
              None \<Rightarrow> (Inl KeyError, removed)
            | Some commands \<Rightarrow> (Inr (), register_commands commands removed))))"

text \<open>
  \<^verbatim>\<open>async_setup\<close> on an empty registry: the commands are registered first, the reload
  service last. It returns \<^verbatim>\<open>True\<close>; the model returns the registry it leaves.
\<close>

definition async_setup :: "config \<Rightarrow> exn + registry" where
  "async_setup config =
     (case config DOMAIN of
        None \<Rightarrow> Inl KeyError
      | Some commands \<Rightarrow>
          Inr (dict_set SERVICE_RELOAD ReloadService (register_commands commands [])))"

subsection \<open>Concrete commands, calls and collaborators\<close>

text \<open>
  The command \<^verbatim>\<open>send_photo\<close>, a template engine for which a template without
  expressions renders to itself and \<^verbatim>\<open>{{ 1 / 0 }}\<close> raises, a filesystem with one
  file, and a client session that answers every request with a given reply.
\<close>

definition send_photo :: command_config where
  "send_photo =
     \<lparr>conf_url = ''https://api.example.com/upload'',
      conf_method = Post,
      conf_headers = None,
      conf_username = None,
      conf_password = None,
      conf_timeout = 10,
      conf_content_type = None,
      conf_verify_ssl = True\<rparr>"

definition example_render :: "template \<Rightarrow> (string \<rightharpoonup> pyval) \<Rightarrow> exn + string" where
  "example_render t d = (if t = ''{{ 1 / 0 }}'' then Inl TemplateError else Inr t)"

definition example_stat :: "string \<Rightarrow> bool" where
  "example_stat p = (p = ''/config/www/image.jpg'')"

definition example_open :: "string \<Rightarrow> exn + handle" where
  "example_open p = (if p = ''/config/www/image.jpg'' then Inr 3 else Inl OSError)"

definition example_world :: "reply \<Rightarrow> world" where
  "example_world rp =
     \<lparr>render = example_render, stat_ok = example_stat, open_rb = example_open,
      send = (\<lambda>req. rp)\<rparr>"

definition example_response :: "int \<Rightarrow> string \<Rightarrow> exn + json \<Rightarrow> exn + string \<Rightarrow> response" where
  "example_response st ct js tx =
     \<lparr>resp_status = st, resp_url = ''https://api.example.com/upload'',
      resp_content_type = ct, resp_json = js, resp_text = tx\<rparr>"

definition answers :: "response \<Rightarrow> reply" where
  "answers r = \<lparr>outcome = Inr r, closes_file = True\<rparr>"

definition refuses :: "exn \<Rightarrow> reply" where
  "refuses e = \<lparr>outcome = Inl e, closes_file = False\<rparr>"

definition json_ok :: response where
  "json_ok = example_response 200 ''application/json'' (Inr (JArr [JNum 1])) (Inr ''[1]'')"

definition server_error :: response where
  "server_error = example_response 500 ''text/plain'' (Inl JSONDecodeError) (Inr ''error'')"

definition bad_json :: response where
  "bad_json = example_response 500 ''application/json'' (Inl JSONDecodeError) (Inr ''oops'')"

definition bad_bytes :: response where
  "bad_bytes = example_response 200 ''application/json'' (Inl UnicodeDecodeError)
                 (Inl UnicodeDecodeError)"

definition upload :: "bool \<Rightarrow> service_call" where
  "upload want = \<lparr>data = [''file'' \<mapsto> PStr ''/config/www/image.jpg''], return_response = want\<rparr>"

definition upload_missing :: service_call where
  "upload_missing = \<lparr>data = [''file'' \<mapsto> PStr ''/missing.jpg''], return_response = False\<rparr>"

definition upload_nothing :: service_call where
  "upload_nothing = \<lparr>data = Map.empty, return_response = False\<rparr>"

definition typed_photo :: "string \<Rightarrow> command_config" where
  "typed_photo ct =
     send_photo\<lparr>conf_headers := Some [(''Content-Type'', ''text/plain'')],
                conf_content_type := Some ct\<rparr>"

definition broken_url_photo :: command_config where
  "broken_url_photo = send_photo\<lparr>conf_url := ''{{ 1 / 0 }}''\<rparr>"

definition photo_request :: request where
  "photo_request = make_request send_photo ''https://api.example.com/upload'' 3 []"

definition stalled_body :: response where
  "stalled_body = example_response 200 ''application/json'' (Inl TimeoutError) (Inl TimeoutError)"

definition dropped_body :: response where
  "dropped_body = example_response 200 ''text/plain'' (Inl ClientError) (Inl ClientError)"

definition reload_named :: config where
  "reload_named = [DOMAIN \<mapsto> [(''send_photo'', send_photo), (''reload'', send_photo)]]"

definition no_commands :: config where
  "no_commands = Map.empty"


section \<open>Lemmas about the trace and the result of the handler\<close>

lemma render_headers_events:
  "render_headers w d ts hs = (r, evs) \<Longrightarrow> ev \<in> set evs
     \<Longrightarrow> \<exists>n t. ev = RenderHeader n t \<and> (n, t) \<in> set ts"
proof (induction ts arbitrary: hs r evs)
  case Nil
  then show ?case by simp
next
  case (Cons a ts)
  obtain n t where a: "a = (n, t)" by (cases a)
  show ?case
  proof (cases "render w t d")
    case (Inl e)
    with Cons.prems a show ?thesis by auto
  next
    case (Inr v)
    obtain r' evs' where rec: "render_headers w d ts (dict_set n v hs) = (r', evs')"
      by (cases "render_headers w d ts (dict_set n v hs)")
    with Cons.prems a Inr have "evs = RenderHeader n t # evs'" by simp
    with Cons.prems(2) have "ev = RenderHeader n t \<or> ev \<in> set evs'" by auto
    then show ?thesis
    proof
      assume "ev = RenderHeader n t"
      with a show ?thesis by auto
    next
      assume "ev \<in> set evs'"
      from Cons.IH[OF rec this] show ?thesis by auto
    qed
  qed
qed

lemma handle_response_events:
  "handle_response s u r = (res, evs) \<Longrightarrow> ev \<in> set evs
     \<Longrightarrow> ev = log_status r \<or> ev = ReadJson \<or> ev = ReadText"
  by (auto simp: handle_response_def read_body_def split: if_splits sum.splits prod.splits)

lemma try_body_request:
  assumes "Request req \<in> set (snd (try_body w c s u fp hs))"
  shows "\<exists>h. py_open w fp = Inr h \<and> req = make_request c u h hs"
  using assms
  by (auto simp: try_body_def Let_def transport_events_def log_status_def
      dest: handle_response_events split: sum.splits prod.splits if_splits)

lemma try_send_request:
  assumes "Request req \<in> set (snd (try_send w c s u fp hs))"
  shows "\<exists>h. py_open w fp = Inr h \<and> req = make_request c u h hs"
proof -
  from assms have "Request req \<in> set (snd (try_body w c s u fp hs))"
    by (auto simp: try_send_def split: sum.splits prod.splits if_splits)
  then show ?thesis by (rule try_body_request)
qed

lemma handler_request:
  assumes "Request req \<in> set (snd (async_service_handler w c s))"
  shows "\<exists>u p rendered evs h.
           render w (conf_url c) (data s) = Inr u \<and>
           dict_get (data s) ''file'' = PStr p \<and> stat_ok w p \<and>
           render_headers w (data s) (template_headers_of c) [] = (Inr rendered, evs) \<and>
           open_rb w p = Inr h \<and>
           req = make_request c u h (apply_content_type (conf_content_type c) rendered)"
proof (cases "render w (conf_url c) (data s)")
  case (Inl e)
  with assms show ?thesis by (simp add: async_service_handler_def)
next
  case (Inr u)
  note u = this
  show ?thesis
  proof (cases "dict_get (data s) ''file''")
    case PNone
    with assms u show ?thesis by (simp add: async_service_handler_def Let_def)
  next
    case (PStr p)
    note p = this
    show ?thesis
    proof (cases "stat_ok w p")
      case False
      with assms u p show ?thesis by (simp add: async_service_handler_def Let_def)
    next
      case True
      obtain r evs where rh: "render_headers w (data s) (template_headers_of c) [] = (r, evs)"
        by (cases "render_headers w (data s) (template_headers_of c) []")
      have notreq: "Request req \<notin> set evs"
        using render_headers_events[OF rh, of "Request req"] by auto
      show ?thesis
      proof (cases r)
        case (Inl e)
        with assms u p True rh notreq show ?thesis by (simp add: async_service_handler_def Let_def)
      next
        case (Inr rendered)
        with assms u p True rh notreq
        have "Request req \<in> set (snd (try_send w c s u (PStr p) (apply_content_type (conf_content_type c) rendered)))"
          by (auto simp: async_service_handler_def Let_def split: prod.splits)
        from try_send_request[OF this] u p True rh Inr show ?thesis by auto
      qed
    qed
  qed
qed


lemma handler_reached:
  assumes "render w (conf_url c) (data s) = Inr u"
    and "dict_get (data s) ''file'' = PStr p"
    and "stat_ok w p"
    and "render_headers w (data s) (template_headers_of c) [] = (Inr rendered, evs)"
  shows "async_service_handler w c s =
           (fst (try_send w c s u (PStr p) (apply_content_type (conf_content_type c) rendered)),
            [RenderUrl (conf_url c), PathExists (PStr p)] @ evs
              @ snd (try_send w c s u (PStr p) (apply_content_type (conf_content_type c) rendered)))"
  using assms by (simp add: async_service_handler_def Let_def split: prod.splits)

lemma try_send_raised:
  assumes "py_open w fp = Inr h"
    and "outcome (send w (make_request c u h hs)) = Inl e"
  shows "try_send w c s u fp hs =
           (Inl (if is_TimeoutError e then timeout_error u
                 else if is_ClientError e then client_error u else e),
            FileOpen fp # transport_events (make_request c u h hs) h (send w (make_request c u h hs))
              @ (if \<not> is_TimeoutError e \<and> is_ClientError e then [LogError e] else []))"
  using assms by (simp add: try_send_def try_body_def Let_def)

lemma not_caught_outside [simp]:
  "\<not> is_TimeoutError (decoding_error u k)" "\<not> is_ClientError (decoding_error u k)"
  by (simp_all add: decoding_error_def)

lemma try_send_no_response_wanted:
  assumes "py_open w fp = Inr h"
    and "outcome (send w (make_request c u h hs)) = Inr r"
    and "\<not> return_response s"
  shows "try_send w c s u fp hs =
           (Inr None,
            FileOpen fp # transport_events (make_request c u h hs) h (send w (make_request c u h hs))
              @ [log_status r, ExitResponse])"
  using assms by (simp add: try_send_def try_body_def Let_def handle_response_def)

lemma try_send_decoded:
  assumes "py_open w fp = Inr h"
    and "outcome (send w (make_request c u h hs)) = Inr r"
    and "return_response s"
    and "read_body r = (Inr cnt, evs)"
  shows "try_send w c s u fp hs =
           (Inr (Some \<lparr>content = cnt, status = resp_status r\<rparr>),
            FileOpen fp # transport_events (make_request c u h hs) h (send w (make_request c u h hs))
              @ log_status r # evs @ [ExitResponse])"
  using assms by (simp add: try_send_def try_body_def Let_def handle_response_def)

lemma try_send_undecoded:
  assumes "py_open w fp = Inr h"
    and "outcome (send w (make_request c u h hs)) = Inr r"
    and "return_response s"
    and "read_body r = (Inl e, evs)"
    and "e = JSONDecodeError \<or> e = AttributeError \<or> e = UnicodeDecodeError"
  shows "try_send w c s u fp hs =
           (Inl (decoding_error u (if e = UnicodeDecodeError then ''text'' else ''JSON'')),
            FileOpen fp # transport_events (make_request c u h hs) h (send w (make_request c u h hs))
              @ log_status r # evs @ [ExitResponse])"
  using assms by (auto simp: try_send_def try_body_def Let_def handle_response_def)

lemma req_url_make_request [simp]: "req_url (make_request c u h hs) = u"
  by (simp add: make_request_def)

lemma req_data_make_request [simp]: "req_data (make_request c u h hs) = [(''file'', h)]"
  by (simp add: make_request_def)

lemma req_headers_make_request [simp]: "req_headers (make_request c u h hs) = or_None hs"
  by (simp add: make_request_def)

lemma try_send_opened:
  assumes "py_open w fp = Inr h"
  shows "\<exists>res tl. try_send w c s u fp hs =
           (res, FileOpen fp # transport_events (make_request c u h hs) h
                                 (send w (make_request c u h hs)) @ tl)"
  using assms
  by (auto simp: try_send_def try_body_def Let_def split: sum.splits prod.splits)

lemma try_body_events:
  assumes "ev \<in> set (snd (try_body w c s u fp hs))"
  shows "ev = FileOpen fp \<or>
         (\<exists>h. py_open w fp = Inr h \<and>
            (ev \<in> set (transport_events (make_request c u h hs) h (send w (make_request c u h hs))) \<or>
             (\<exists>r. outcome (send w (make_request c u h hs)) = Inr r \<and>
                  (ev = ExitResponse \<or> ev \<in> set (snd (handle_response s u r))))))"
  using assms
  by (auto simp: try_body_def Let_def split: sum.splits prod.splits)

lemma try_send_events:
  assumes "ev \<in> set (snd (try_send w c s u fp hs))"
  shows "ev \<in> set (snd (try_body w c s u fp hs)) \<or> (\<exists>e. ev = LogError e)"
  using assms
  by (auto simp: try_send_def split: sum.splits prod.splits if_splits)

lemma handler_events:
  assumes "ev \<in> set (snd (async_service_handler w c s))"
  shows "ev = RenderUrl (conf_url c) \<or> ev = PathExists (dict_get (data s) ''file'') \<or>
         (\<exists>n t. ev = RenderHeader n t) \<or>
         (\<exists>u p rendered evs.
            render w (conf_url c) (data s) = Inr u \<and>
            dict_get (data s) ''file'' = PStr p \<and> stat_ok w p \<and>
            render_headers w (data s) (template_headers_of c) [] = (Inr rendered, evs) \<and>
            ev \<in> set (snd (try_send w c s u (PStr p)
                               (apply_content_type (conf_content_type c) rendered))))"
proof (cases "render w (conf_url c) (data s)")
  case (Inl e)
  with assms show ?thesis by (simp add: async_service_handler_def)
next
  case (Inr u)
  note u = this
  show ?thesis
  proof (cases "dict_get (data s) ''file''")
    case PNone
    with assms u show ?thesis by (auto simp: async_service_handler_def Let_def)
  next
    case (PStr p)
    note p = this
    show ?thesis
    proof (cases "stat_ok w p")
      case False
      with assms u p show ?thesis by (auto simp: async_service_handler_def Let_def)
    next
      case True
      obtain r evs where rh: "render_headers w (data s) (template_headers_of c) [] = (r, evs)"
        by (cases "render_headers w (data s) (template_headers_of c) []")
      have hdr: "\<exists>n t. e = RenderHeader n t" if "e \<in> set evs" for e
        using render_headers_events[OF rh that] by auto
      show ?thesis
      proof (cases r)
        case (Inl e)
        with assms u p True rh hdr show ?thesis
          by (auto simp: async_service_handler_def Let_def)
      next
        case (Inr rendered)
        with assms u p True rh hdr show ?thesis
          by (auto simp: async_service_handler_def Let_def split: prod.splits)
      qed
    qed
  qed
qed

lemma dict_get_file: "data s ''file'' = Some v \<Longrightarrow> dict_get (data s) ''file'' = v"
  by (simp add: dict_get_def)

lemma handle_response_logs:
  "log_status r \<in> set (snd (handle_response s u r))"
  by (auto simp: handle_response_def split: sum.splits prod.splits)

lemma try_send_answered_events:
  assumes "py_open w fp = Inr h"
    and "outcome (send w (make_request c u h hs)) = Inr r"
  shows "set (snd (handle_response s u r)) \<subseteq> set (snd (try_send w c s u fp hs))"
  using assms
  by (auto simp: try_send_def try_body_def Let_def split: sum.splits prod.splits)

lemma log_events_of_handler:
  assumes "Log l u st \<in> set (snd (async_service_handler w c s))"
    and "Request req \<in> set (snd (async_service_handler w c s))"
    and "outcome (send w req) = Inr r"
  shows "Log l u st = log_status r"
proof -
  from handler_request[OF assms(2)] obtain u' p rendered evs h where
    path: "render w (conf_url c) (data s) = Inr u'" "dict_get (data s) ''file'' = PStr p"
      "stat_ok w p" "render_headers w (data s) (template_headers_of c) [] = (Inr rendered, evs)"
      "open_rb w p = Inr h"
      "req = make_request c u' h (apply_content_type (conf_content_type c) rendered)"
    by blast
  from handler_events[OF assms(1)] path
  have "Log l u st \<in> set (snd (try_send w c s u' (PStr p)
                                  (apply_content_type (conf_content_type c) rendered)))"
    by auto
  from try_send_events[OF this]
  have "Log l u st \<in> set (snd (try_body w c s u' (PStr p)
                                  (apply_content_type (conf_content_type c) rendered)))"
    by auto
  from try_body_events[OF this] path assms(3)
  have "Log l u st \<in> set (snd (handle_response s u' r))"
    by (auto simp: transport_events_def split: if_splits)
  then show ?thesis
    by (cases "handle_response s u' r") (auto dest: handle_response_events)
qed

lemmas example_defs = example_world_def example_render_def example_stat_def example_open_def
  send_photo_def upload_def upload_missing_def upload_nothing_def answers_def refuses_def
  example_response_def json_ok_def server_error_def bad_json_def bad_bytes_def typed_photo_def
  broken_url_photo_def

lemma example_reaches:
  "async_service_handler (example_world rp) send_photo (upload want) =
     (fst (try_send (example_world rp) send_photo (upload want)
             ''https://api.example.com/upload'' (PStr ''/config/www/image.jpg'') []),
      [RenderUrl ''https://api.example.com/upload'', PathExists (PStr ''/config/www/image.jpg'')]
        @ snd (try_send (example_world rp) send_photo (upload want)
                 ''https://api.example.com/upload'' (PStr ''/config/www/image.jpg'') []))"
proof -
  have "async_service_handler (example_world rp) send_photo (upload want) =
     (fst (try_send (example_world rp) send_photo (upload want)
             ''https://api.example.com/upload'' (PStr ''/config/www/image.jpg'')
             (apply_content_type (conf_content_type send_photo) [])),
      [RenderUrl (conf_url send_photo), PathExists (PStr ''/config/www/image.jpg'')] @ []
        @ snd (try_send (example_world rp) send_photo (upload want)
                 ''https://api.example.com/upload'' (PStr ''/config/www/image.jpg'')
                 (apply_content_type (conf_content_type send_photo) [])))"
    by (rule handler_reached)
       (simp_all add: example_world_def example_render_def example_stat_def send_photo_def
          upload_def dict_get_def template_headers_of_def)
  then show ?thesis by (simp add: send_photo_def apply_content_type_def)
qed

lemma example_opens: "py_open (example_world rp) (PStr ''/config/www/image.jpg'') = Inr 3"
  by (simp add: example_world_def example_open_def)

lemma example_sends: "send (example_world rp) req = rp"
  by (simp add: example_world_def)

lemma example_answers:
  "async_service_handler (example_world (answers r)) send_photo (upload False) =
     (Inr None,
      [RenderUrl ''https://api.example.com/upload'', PathExists (PStr ''/config/www/image.jpg''),
       FileOpen (PStr ''/config/www/image.jpg''), Request photo_request, FileClose 3,
       log_status r, ExitResponse])"
proof -
  have "try_send (example_world (answers r)) send_photo (upload False)
          ''https://api.example.com/upload'' (PStr ''/config/www/image.jpg'') [] =
        (Inr None, FileOpen (PStr ''/config/www/image.jpg'')
           # transport_events photo_request 3 (answers r) @ [log_status r, ExitResponse])"
    using try_send_no_response_wanted[OF example_opens, of "answers r" send_photo
        "''https://api.example.com/upload''" "[]" r "upload False"]
    by (simp add: example_sends photo_request_def answers_def upload_def)
  then show ?thesis
    by (simp add: example_reaches transport_events_def answers_def)
qed

lemma example_refuses:
  "async_service_handler (example_world (refuses e)) send_photo (upload want) =
     (Inl (if is_TimeoutError e then timeout_error ''https://api.example.com/upload''
           else if is_ClientError e then client_error ''https://api.example.com/upload'' else e),
      [RenderUrl ''https://api.example.com/upload'', PathExists (PStr ''/config/www/image.jpg''),
       FileOpen (PStr ''/config/www/image.jpg''), Request photo_request]
        @ (if \<not> is_TimeoutError e \<and> is_ClientError e then [LogError e] else []))"
proof -
  have "try_send (example_world (refuses e)) send_photo (upload want)
          ''https://api.example.com/upload'' (PStr ''/config/www/image.jpg'') [] =
        (Inl (if is_TimeoutError e then timeout_error ''https://api.example.com/upload''
              else if is_ClientError e then client_error ''https://api.example.com/upload''
              else e),
         FileOpen (PStr ''/config/www/image.jpg'')
           # transport_events photo_request 3 (refuses e)
           @ (if \<not> is_TimeoutError e \<and> is_ClientError e then [LogError e] else []))"
    using try_send_raised[OF example_opens, of "refuses e" send_photo
        "''https://api.example.com/upload''" "[]" e "upload want"]
    by (simp add: example_sends photo_request_def refuses_def)
  then show ?thesis
    by (simp add: example_reaches transport_events_def refuses_def)
qed

lemma handler_request_issued:
  assumes "render w (conf_url c) (data s) = Inr u"
    and "dict_get (data s) ''file'' = PStr p"
    and "stat_ok w p"
    and "render_headers w (data s) (template_headers_of c) [] = (Inr rendered, evs)"
    and "open_rb w p = Inr h"
  shows "set (transport_events
               (make_request c u h (apply_content_type (conf_content_type c) rendered)) h
               (send w (make_request c u h (apply_content_type (conf_content_type c) rendered))))
           \<subseteq> set (snd (async_service_handler w c s))"
proof -
  have "py_open w (PStr p) = Inr h" using assms(5) by simp
  from try_send_opened[OF this, of c s u "apply_content_type (conf_content_type c) rendered"]
  obtain res tl where
    "try_send w c s u (PStr p) (apply_content_type (conf_content_type c) rendered) =
       (res, FileOpen (PStr p) # transport_events
               (make_request c u h (apply_content_type (conf_content_type c) rendered)) h
               (send w (make_request c u h (apply_content_type (conf_content_type c) rendered)))
             @ tl)"
    by blast
  then show ?thesis
    by (simp add: handler_reached[OF assms(1-4)]) blast
qed

lemma file_close_origin:
  assumes "FileClose h \<in> set (snd (async_service_handler w c s))"
  shows "\<exists>req. Request req \<in> set (snd (async_service_handler w c s)) \<and>
           req_data req = [(''file'', h)] \<and> closes_file (send w req)"
proof -
  from handler_events[OF assms] obtain u p rendered evs where
    path: "render w (conf_url c) (data s) = Inr u" "dict_get (data s) ''file'' = PStr p"
      "stat_ok w p" "render_headers w (data s) (template_headers_of c) [] = (Inr rendered, evs)"
    and ev: "FileClose h \<in> set (snd (try_send w c s u (PStr p)
                                 (apply_content_type (conf_content_type c) rendered)))"
    by auto
  let ?hs = "apply_content_type (conf_content_type c) rendered"
  from try_send_events[OF ev]
  have "FileClose h \<in> set (snd (try_body w c s u (PStr p) ?hs))" by auto
  from try_body_events[OF this] obtain h' where
    h': "py_open w (PStr p) = Inr h'"
    and cases: "FileClose h \<in> set (transport_events (make_request c u h' ?hs) h'
                                      (send w (make_request c u h' ?hs)))
           \<or> (\<exists>r. FileClose h \<in> set (snd (handle_response s u r)))"
    by auto
  have "FileClose h \<notin> set (snd (handle_response s u r))" for r
    by (cases "handle_response s u r")
       (auto dest: handle_response_events simp: log_status_def split: if_splits)
  with cases have
    "FileClose h \<in> set (transport_events (make_request c u h' ?hs) h'
                           (send w (make_request c u h' ?hs)))"
    by blast
  then have eq: "h' = h" and cl: "closes_file (send w (make_request c u h' ?hs))"
    by (auto simp: transport_events_def split: if_splits)
  have op: "open_rb w p = Inr h'" using h' by simp
  have "Request (make_request c u h' ?hs) \<in> set (snd (async_service_handler w c s))"
    using handler_request_issued[OF path op] by (auto simp: transport_events_def)
  with eq cl show ?thesis by (intro exI[of _ "make_request c u h' ?hs"]) simp
qed

lemma file_close_by_transport:
  assumes "Request req \<in> set (snd (async_service_handler w c s))"
    and "req_data req = [(''file'', h)]"
    and "closes_file (send w req)"
  shows "FileClose h \<in> set (snd (async_service_handler w c s))"
proof -
  from handler_request[OF assms(1)] obtain u p rendered evs h' where
    path: "render w (conf_url c) (data s) = Inr u" "dict_get (data s) ''file'' = PStr p"
      "stat_ok w p" "render_headers w (data s) (template_headers_of c) [] = (Inr rendered, evs)"
    and op: "open_rb w p = Inr h'"
    and req: "req = make_request c u h' (apply_content_type (conf_content_type c) rendered)"
    by blast
  from assms(2) req have "h' = h" by simp
  with handler_request_issued[OF path op] assms(3) req show ?thesis
    by (auto simp: transport_events_def)
qed

lemma file_open_origin:
  assumes "FileOpen fp \<in> set (snd (async_service_handler w c s))"
  shows "\<exists>u p rendered evs.
            render w (conf_url c) (data s) = Inr u \<and>
            dict_get (data s) ''file'' = PStr p \<and> stat_ok w p \<and> fp = PStr p \<and>
            render_headers w (data s) (template_headers_of c) [] = (Inr rendered, evs)"
proof -
  from handler_events[OF assms] obtain u p rendered evs where
    path: "render w (conf_url c) (data s) = Inr u" "dict_get (data s) ''file'' = PStr p"
      "stat_ok w p" "render_headers w (data s) (template_headers_of c) [] = (Inr rendered, evs)"
    and ev: "FileOpen fp \<in> set (snd (try_send w c s u (PStr p)
                                 (apply_content_type (conf_content_type c) rendered)))"
    by auto
  let ?hs = "apply_content_type (conf_content_type c) rendered"
  from try_send_events[OF ev]
  have "FileOpen fp \<in> set (snd (try_body w c s u (PStr p) ?hs))" by auto
  from try_body_events[OF this]
  have "fp = PStr p \<or> (\<exists>r. FileOpen fp \<in> set (snd (handle_response s u r)))"
    by (auto simp: transport_events_def split: if_splits)
  moreover have "FileOpen fp \<notin> set (snd (handle_response s u r))" for r
    by (cases "handle_response s u r")
       (auto dest: handle_response_events simp: log_status_def split: if_splits)
  ultimately have "fp = PStr p" by blast
  with path show ?thesis by blast
qed

lemma handler_answered:
  assumes "Request req \<in> set (snd (async_service_handler w c s))"
    and "outcome (send w req) = Inr r"
  shows "render w (conf_url c) (data s) = Inr (req_url req)
       \<and> fst (async_service_handler w c s)
           = (case fst (handle_response s (req_url req) r) of
                Inr v \<Rightarrow> Inr v
              | Inl e \<Rightarrow>
                  Inl (if is_TimeoutError e then timeout_error (req_url req)
                       else if is_ClientError e then client_error (req_url req) else e))
       \<and> set (snd (handle_response s (req_url req) r))
           \<subseteq> set (snd (async_service_handler w c s))
       \<and> (\<forall>ev \<in> set (snd (async_service_handler w c s)).
            ev = ReadJson \<or> ev = ReadText
              \<longrightarrow> ev \<in> set (snd (handle_response s (req_url req) r)))"
proof -
  from handler_request[OF assms(1)] obtain u p rendered evs h where
    path: "render w (conf_url c) (data s) = Inr u" "dict_get (data s) ''file'' = PStr p"
      "stat_ok w p" "render_headers w (data s) (template_headers_of c) [] = (Inr rendered, evs)"
      "open_rb w p = Inr h"
      "req = make_request c u h (apply_content_type (conf_content_type c) rendered)"
    by blast
  let ?hs = "apply_content_type (conf_content_type c) rendered"
  note reached = handler_reached[OF path(1-4)]
  have url: "req_url req = u" using path(6) by simp
  have opened: "py_open w (PStr p) = Inr h" using path(5) by simp
  have answered: "outcome (send w (make_request c u h ?hs)) = Inr r"
    using assms(2) path(6) by simp
  have res: "fst (try_send w c s u (PStr p) ?hs)
           = (case fst (handle_response s u r) of
                Inr v \<Rightarrow> Inr v
              | Inl e \<Rightarrow>
                  Inl (if is_TimeoutError e then timeout_error u
                       else if is_ClientError e then client_error u else e))"
    using opened answered
    by (auto simp: try_send_def try_body_def Let_def split: sum.splits prod.splits)
  have sub: "set (snd (handle_response s u r)) \<subseteq> set (snd (try_send w c s u (PStr p) ?hs))"
    using try_send_answered_events[OF opened answered] .
  have reads: "ev \<in> set (snd (handle_response s u r))"
    if ev: "ev \<in> set (snd (async_service_handler w c s))" and rd: "ev = ReadJson \<or> ev = ReadText"
    for ev
  proof -
    from handler_events[OF ev] rd path
    have "ev \<in> set (snd (try_send w c s u (PStr p) ?hs))" by auto
    from try_send_events[OF this] rd
    have "ev \<in> set (snd (try_body w c s u (PStr p) ?hs))" by auto
    from try_body_events[OF this] rd opened answered show ?thesis
      by (auto simp: transport_events_def split: if_splits)
  qed
  show ?thesis
  proof (intro conjI ballI impI)
    show "render w (conf_url c) (data s) = Inr (req_url req)" using path(1) url by simp
    show "fst (async_service_handler w c s)
           = (case fst (handle_response s (req_url req) r) of
                Inr v \<Rightarrow> Inr v
              | Inl e \<Rightarrow>
                  Inl (if is_TimeoutError e then timeout_error (req_url req)
                       else if is_ClientError e then client_error (req_url req) else e))"
      unfolding url using res reached by simp
    show "set (snd (handle_response s (req_url req) r))
           \<subseteq> set (snd (async_service_handler w c s))"
      using sub reached url by auto
  next
    fix ev
    assume "ev \<in> set (snd (async_service_handler w c s))" and "ev = ReadJson \<or> ev = ReadText"
    then show "ev \<in> set (snd (handle_response s (req_url req) r))"
      using reads url by simp
  qed
qed

lemma handle_response_json:
  assumes "return_response s" and "resp_content_type r = ''application/json''"
  shows "snd (handle_response s u r) = [log_status r, ReadJson]"
    and "resp_json r = Inr j \<Longrightarrow>
           fst (handle_response s u r)
             = Inr (Some \<lparr>content = JsonContent j, status = resp_status r\<rparr>)"
    and "resp_json r = Inl JSONDecodeError \<or> resp_json r = Inl AttributeError \<Longrightarrow>
           fst (handle_response s u r) = Inl (decoding_error u ''JSON'')"
    and "resp_json r = Inl UnicodeDecodeError \<Longrightarrow>
           fst (handle_response s u r) = Inl (decoding_error u ''text'')"
  using assms
  by (auto simp: handle_response_def read_body_def split: sum.splits)

lemma handle_response_text:
  assumes "return_response s" and "resp_content_type r \<noteq> ''application/json''"
  shows "snd (handle_response s u r) = [log_status r, ReadText]"
    and "resp_text r = Inr t \<Longrightarrow>
           fst (handle_response s u r)
             = Inr (Some \<lparr>content = TextContent t, status = resp_status r\<rparr>)"
    and "resp_text r = Inl JSONDecodeError \<or> resp_text r = Inl AttributeError \<Longrightarrow>
           fst (handle_response s u r) = Inl (decoding_error u ''JSON'')"
    and "resp_text r = Inl UnicodeDecodeError \<Longrightarrow>
           fst (handle_response s u r) = Inl (decoding_error u ''text'')"
  using assms
  by (auto simp: handle_response_def read_body_def split: sum.splits)

lemma log_status_not_read [simp]:
  "log_status r \<noteq> ReadJson" "log_status r \<noteq> ReadText"
  "ReadJson \<noteq> log_status r" "ReadText \<noteq> log_status r"
  by (simp_all add: log_status_def)

lemma example_request:
  "Request photo_request
     \<in> set (snd (async_service_handler (example_world rp) send_photo (upload want)))"
proof -
  from try_send_opened[OF example_opens, of rp send_photo "upload want"
      "''https://api.example.com/upload''" "[]"]
  obtain res tl where
    "try_send (example_world rp) send_photo (upload want) ''https://api.example.com/upload''
       (PStr ''/config/www/image.jpg'') [] =
     (res, FileOpen (PStr ''/config/www/image.jpg'')
             # transport_events photo_request 3 rp @ tl)"
    by (auto simp: example_sends photo_request_def)
  then show ?thesis by (simp add: example_reaches transport_events_def)
qed

lemma example_outcome: "outcome (send (example_world (answers r)) req) = Inr r"
  by (simp add: example_sends answers_def)

lemma example_refusal: "outcome (send (example_world (refuses e)) req) = Inl e"
  by (simp add: example_sends refuses_def)

lemma handler_returned:
  assumes "fst (async_service_handler w c s) = Inr v"
  shows "\<exists>req r. Request req \<in> set (snd (async_service_handler w c s))
                 \<and> outcome (send w req) = Inr r"
proof (cases "render w (conf_url c) (data s)")
  case (Inl e)
  with assms show ?thesis by (simp add: async_service_handler_def)
next
  case (Inr u)
  note u = this
  show ?thesis
  proof (cases "dict_get (data s) ''file''")
    case PNone
    with assms u show ?thesis by (simp add: async_service_handler_def Let_def)
  next
    case (PStr p)
    note p = this
    show ?thesis
    proof (cases "stat_ok w p")
      case False
      with assms u p show ?thesis by (simp add: async_service_handler_def Let_def)
    next
      case True
      obtain r evs where rh: "render_headers w (data s) (template_headers_of c) [] = (r, evs)"
        by (cases "render_headers w (data s) (template_headers_of c) []")
      show ?thesis
      proof (cases r)
        case (Inl e)
        with assms u p True rh show ?thesis by (simp add: async_service_handler_def Let_def)
      next
        case (Inr rendered)
        with rh have rh': "render_headers w (data s) (template_headers_of c) [] = (Inr rendered, evs)"
          by simp
        let ?hs = "apply_content_type (conf_content_type c) rendered"
        note reached = handler_reached[OF u p True rh']
        from assms reached have ts: "fst (try_send w c s u (PStr p) ?hs) = Inr v" by simp
        then obtain h where op: "open_rb w p = Inr h"
          by (auto simp: try_send_def try_body_def split: sum.splits prod.splits if_splits)
        from ts op obtain resp where ans: "outcome (send w (make_request c u h ?hs)) = Inr resp"
          by (auto simp: try_send_def try_body_def Let_def split: sum.splits prod.splits if_splits)
        have "Request (make_request c u h ?hs) \<in> set (snd (async_service_handler w c s))"
          using handler_request_issued[OF u p True rh' op] by (auto simp: transport_events_def)
        with ans show ?thesis by blast
      qed
    qed
  qed
qed

lemma handle_response_unwanted:
  "\<not> return_response s \<Longrightarrow> handle_response s u r = (Inr None, [log_status r])"
  by (simp add: handle_response_def)

lemma reads_need_a_response:
  assumes "ev \<in> set (snd (async_service_handler w c s))" and "ev = ReadJson \<or> ev = ReadText"
  shows "\<exists>req r. Request req \<in> set (snd (async_service_handler w c s))
                 \<and> outcome (send w req) = Inr r
                 \<and> ev \<in> set (snd (handle_response s (req_url req) r))"
proof -
  from handler_events[OF assms(1)] assms(2) obtain u p rendered evs where
    path: "render w (conf_url c) (data s) = Inr u" "dict_get (data s) ''file'' = PStr p"
      "stat_ok w p" "render_headers w (data s) (template_headers_of c) [] = (Inr rendered, evs)"
    and ev: "ev \<in> set (snd (try_send w c s u (PStr p)
                              (apply_content_type (conf_content_type c) rendered)))"
    by auto
  let ?hs = "apply_content_type (conf_content_type c) rendered"
  from try_send_events[OF ev] assms(2)
  have "ev \<in> set (snd (try_body w c s u (PStr p) ?hs))" by auto
  from try_body_events[OF this] assms(2) obtain h r where
    h: "py_open w (PStr p) = Inr h"
    and r: "outcome (send w (make_request c u h ?hs)) = Inr r"
    and inr: "ev \<in> set (snd (handle_response s u r))"
    by (auto simp: transport_events_def split: if_splits)
  have op: "open_rb w p = Inr h" using h by simp
  have "Request (make_request c u h ?hs) \<in> set (snd (async_service_handler w c s))"
    using handler_request_issued[OF path op] by (auto simp: transport_events_def)
  with r inr show ?thesis
    by (intro exI[of _ "make_request c u h ?hs"] exI[of _ r]) simp
qed

section \<open>The claims\<close>

subsection \<open>C1: a missing file fails before any request\<close>

text \<open>
  Claim C1, as amended. When the \<^verbatim>\<open>file\<close> parameter is a path that does not exist,
  the handler makes no network call, renders no header template and opens no file,
  whatever the URL template does: the only calls it makes are the rendering of the URL
  template and the existence check. When moreover the URL template renders, the handler
  raises \<^verbatim>\<open>HomeAssistantError("File not found: <path>")\<close> after exactly these two
  calls. (The URL template is rendered first, so a URL template that raises fails the
  invocation with the template's error instead.)
\<close>

theorem missing_file_fails_before_any_request:
  assumes "data s ''file'' = Some (PStr p)" and "\<not> stat_ok w p"
  shows "(\<forall>u. render w (conf_url c) (data s) = Inr u \<longrightarrow>
            async_service_handler w c s =
              (Inl (HomeAssistantError (Message (''File not found: '' @ p))),
               [RenderUrl (conf_url c), PathExists (PStr p)]))
       \<and> (\<forall>ev \<in> set (snd (async_service_handler w c s)).
            ev = RenderUrl (conf_url c) \<or> ev = PathExists (PStr p))"
proof -
  have fp: "dict_get (data s) ''file'' = PStr p"
    using assms(1) by (rule dict_get_file)
  show ?thesis
  proof (cases "render w (conf_url c) (data s)")
    case (Inl e)
    then show ?thesis by (simp add: async_service_handler_def)
  next
    case (Inr u)
    with fp assms(2) show ?thesis
      by (simp add: async_service_handler_def Let_def file_not_found_def)
  qed
qed

text \<open>
  Witness for C1: the command \<^verbatim>\<open>send_photo\<close> called with \<^verbatim>\<open>file=/missing.jpg\<close>.
\<close>

theorem missing_file_fails_before_any_request_witness:
  "data upload_missing ''file'' = Some (PStr ''/missing.jpg'')
   \<and> \<not> stat_ok (example_world (answers json_ok)) ''/missing.jpg''
   \<and> async_service_handler (example_world (answers json_ok)) send_photo upload_missing =
       (Inl (HomeAssistantError (Message ''File not found: /missing.jpg'')),
        [RenderUrl ''https://api.example.com/upload'', PathExists (PStr ''/missing.jpg'')])"
proof -
  have a: "data upload_missing ''file'' = Some (PStr ''/missing.jpg'')"
    by (simp add: upload_missing_def)
  have b: "\<not> stat_ok (example_world (answers json_ok)) ''/missing.jpg''"
    by (simp add: example_world_def example_stat_def)
  have c: "render (example_world (answers json_ok)) (conf_url send_photo) (data upload_missing)
             = Inr ''https://api.example.com/upload''"
    by (simp add: example_world_def example_render_def send_photo_def)
  from missing_file_fails_before_any_request[OF a b, of send_photo] c a b
  show ?thesis by (simp add: send_photo_def)
qed

text \<open>
  Counterexample to C1 as stated: the file is missing and the URL template raises; the
  invocation fails with the template's error, not with the file-not-found error.
\<close>

theorem missing_file_with_failing_url_template:
  "data upload_missing ''file'' = Some (PStr ''/missing.jpg'')
   \<and> \<not> stat_ok (example_world (answers json_ok)) ''/missing.jpg''
   \<and> async_service_handler (example_world (answers json_ok)) broken_url_photo upload_missing =
       (Inl TemplateError, [RenderUrl ''{{ 1 / 0 }}''])
   \<and> fst (async_service_handler (example_world (answers json_ok)) broken_url_photo upload_missing)
       \<noteq> Inl (file_not_found (PStr ''/missing.jpg''))"
  by (simp add: async_service_handler_def example_defs file_not_found_def)

subsection \<open>C2: the HTTP status does not fail the invocation\<close>

text \<open>
  Claim C2, as amended. When the client session answers the request with a response, the
  status of the response never fails the invocation: without a wanted response the
  handler returns \<^verbatim>\<open>None\<close>; with a wanted response whose body decodes, it returns
  the decoded content with the status. A status of 400 or more is logged once at warning
  level with the response's URL and the status and nothing is logged at debug level; a
  status below 400 is logged at debug level and nothing at warning level. (A body that
  does not decode fails the invocation whatever the status.)
\<close>

theorem status_alone_does_not_fail_the_invocation:
  assumes "Request req \<in> set (snd (async_service_handler w c s))"
    and "outcome (send w req) = Inr r"
  shows "(\<not> return_response s \<longrightarrow> fst (async_service_handler w c s) = Inr None)
       \<and> (return_response s \<longrightarrow>
            (\<forall>cnt. fst (read_body r) = Inr cnt \<longrightarrow>
               fst (async_service_handler w c s)
                 = Inr (Some \<lparr>content = cnt, status = resp_status r\<rparr>)))
       \<and> (400 \<le> resp_status r \<longrightarrow>
            Log Warning (resp_url r) (resp_status r) \<in> set (snd (async_service_handler w c s))
            \<and> (\<forall>u st. Log Debug u st \<notin> set (snd (async_service_handler w c s))))
       \<and> (resp_status r < 400 \<longrightarrow>
            Log Debug (resp_url r) (resp_status r) \<in> set (snd (async_service_handler w c s))
            \<and> (\<forall>u st. Log Warning u st \<notin> set (snd (async_service_handler w c s))))"
proof -
  from handler_request[OF assms(1)] obtain u p rendered evs h where
    path: "render w (conf_url c) (data s) = Inr u" "dict_get (data s) ''file'' = PStr p"
      "stat_ok w p" "render_headers w (data s) (template_headers_of c) [] = (Inr rendered, evs)"
      "open_rb w p = Inr h"
      "req = make_request c u h (apply_content_type (conf_content_type c) rendered)"
    by blast
  let ?hs = "apply_content_type (conf_content_type c) rendered"
  note reached = handler_reached[OF path(1-4)]
  have opened: "py_open w (PStr p) = Inr h" using path(5) by simp
  have answered: "outcome (send w (make_request c u h ?hs)) = Inr r"
    using assms(2) path(6) by simp
  have none: "fst (async_service_handler w c s) = Inr None" if "\<not> return_response s"
    using try_send_no_response_wanted[OF opened answered that] reached by simp
  have some: "fst (async_service_handler w c s)
                = Inr (Some \<lparr>content = cnt, status = resp_status r\<rparr>)"
    if rr: "return_response s" and rb: "fst (read_body r) = Inr cnt" for cnt
  proof -
    obtain evs' where "read_body r = (Inr cnt, evs')"
      using rb by (cases "read_body r") simp
    from try_send_decoded[OF opened answered rr this] reached show ?thesis by simp
  qed
  have "log_status r \<in> set (snd (try_send w c s u (PStr p) ?hs))"
    using try_send_answered_events[OF opened answered, of s] handle_response_logs[of r s u]
    by blast
  then have logged: "log_status r \<in> set (snd (async_service_handler w c s))"
    by (simp add: reached)
  have only: "Log l u' st = log_status r"
    if "Log l u' st \<in> set (snd (async_service_handler w c s))" for l u' st
    using log_events_of_handler[OF that assms] .
  have warn: "Log Warning (resp_url r) (resp_status r) \<in> set (snd (async_service_handler w c s))
              \<and> (\<forall>u st. Log Debug u st \<notin> set (snd (async_service_handler w c s)))"
    if "400 \<le> resp_status r"
  proof -
    have eq: "log_status r = Log Warning (resp_url r) (resp_status r)"
      using that by (simp add: log_status_def BAD_REQUEST_def)
    have "Log Debug u' st \<notin> set (snd (async_service_handler w c s))" for u' st
    proof
      assume "Log Debug u' st \<in> set (snd (async_service_handler w c s))"
      from only[OF this] eq show False by simp
    qed
    with logged eq show ?thesis by simp
  qed
  have dbg: "Log Debug (resp_url r) (resp_status r) \<in> set (snd (async_service_handler w c s))
              \<and> (\<forall>u st. Log Warning u st \<notin> set (snd (async_service_handler w c s)))"
    if "resp_status r < 400"
  proof -
    have eq: "log_status r = Log Debug (resp_url r) (resp_status r)"
      using that by (simp add: log_status_def BAD_REQUEST_def)
    have "Log Warning u' st \<notin> set (snd (async_service_handler w c s))" for u' st
    proof
      assume "Log Warning u' st \<in> set (snd (async_service_handler w c s))"
      from only[OF this] eq show False by simp
    qed
    with logged eq show ?thesis by simp
  qed
  show ?thesis
  proof (intro conjI impI allI)
    assume "\<not> return_response s"
    then show "fst (async_service_handler w c s) = Inr None" by (rule none)
  next
    fix cnt
    assume "return_response s" and "fst (read_body r) = Inr cnt"
    then show "fst (async_service_handler w c s)
                 = Inr (Some \<lparr>content = cnt, status = resp_status r\<rparr>)"
      by (rule some)
  next
    assume "400 \<le> resp_status r"
    from warn[OF this]
    show "Log Warning (resp_url r) (resp_status r) \<in> set (snd (async_service_handler w c s))"
      by (rule conjunct1)
  next
    fix u' st
    assume "400 \<le> resp_status r"
    from warn[OF this] show "Log Debug u' st \<notin> set (snd (async_service_handler w c s))"
      by blast
  next
    assume "resp_status r < 400"
    from dbg[OF this]
    show "Log Debug (resp_url r) (resp_status r) \<in> set (snd (async_service_handler w c s))"
      by (rule conjunct1)
  next
    fix u' st
    assume "resp_status r < 400"
    from dbg[OF this] show "Log Warning u' st \<notin> set (snd (async_service_handler w c s))"
      by blast
  qed
qed

text \<open>
  Witness for C2: status 500 with no response wanted, and status 200 with a wanted
  response whose body decodes.
\<close>

theorem status_alone_does_not_fail_the_invocation_witness:
  "Request photo_request
     \<in> set (snd (async_service_handler (example_world (answers server_error)) send_photo
                   (upload False)))
   \<and> outcome (send (example_world (answers server_error)) photo_request) = Inr server_error
   \<and> \<not> return_response (upload False)
   \<and> resp_status server_error = 500
   \<and> fst (async_service_handler (example_world (answers server_error)) send_photo (upload False))
       = Inr None
   \<and> Log Warning ''https://api.example.com/upload'' 500
       \<in> set (snd (async_service_handler (example_world (answers server_error)) send_photo
                     (upload False)))
   \<and> Request photo_request
       \<in> set (snd (async_service_handler (example_world (answers json_ok)) send_photo
                     (upload True)))
   \<and> outcome (send (example_world (answers json_ok)) photo_request) = Inr json_ok
   \<and> return_response (upload True)
   \<and> resp_status json_ok = 200
   \<and> fst (read_body json_ok) = Inr (JsonContent (JArr [JNum 1]))
   \<and> fst (async_service_handler (example_world (answers json_ok)) send_photo (upload True))
       = Inr (Some \<lparr>content = JsonContent (JArr [JNum 1]), status = 200\<rparr>)
   \<and> Log Debug ''https://api.example.com/upload'' 200
       \<in> set (snd (async_service_handler (example_world (answers json_ok)) send_photo
                     (upload True)))"
proof -
  have a: "Request photo_request
     \<in> set (snd (async_service_handler (example_world (answers server_error)) send_photo
                   (upload False)))"
    by (rule example_request)
  have b: "outcome (send (example_world (answers server_error)) photo_request) = Inr server_error"
    by (rule example_outcome)
  have c: "\<not> return_response (upload False)" by (simp add: upload_def)
  have d: "resp_status server_error = 500"
    "resp_url server_error = ''https://api.example.com/upload''"
    by (simp_all add: server_error_def example_response_def)
  have a': "Request photo_request
     \<in> set (snd (async_service_handler (example_world (answers json_ok)) send_photo
                   (upload True)))"
    by (rule example_request)
  have b': "outcome (send (example_world (answers json_ok)) photo_request) = Inr json_ok"
    by (rule example_outcome)
  have c': "return_response (upload True)" by (simp add: upload_def)
  have d': "resp_status json_ok = 200" "resp_url json_ok = ''https://api.example.com/upload''"
    "fst (read_body json_ok) = Inr (JsonContent (JArr [JNum 1]))"
    by (simp_all add: json_ok_def example_response_def read_body_def)
  from status_alone_does_not_fail_the_invocation[OF a b] c d
  have first: "fst (async_service_handler (example_world (answers server_error)) send_photo
                      (upload False)) = Inr None"
    "Log Warning ''https://api.example.com/upload'' 500
       \<in> set (snd (async_service_handler (example_world (answers server_error)) send_photo
                     (upload False)))"
    by simp_all
  from status_alone_does_not_fail_the_invocation[OF a' b'] c' d'
  have second: "fst (async_service_handler (example_world (answers json_ok)) send_photo
                       (upload True))
       = Inr (Some \<lparr>content = JsonContent (JArr [JNum 1]), status = 200\<rparr>)"
    "Log Debug ''https://api.example.com/upload'' 200
       \<in> set (snd (async_service_handler (example_world (answers json_ok)) send_photo
                     (upload True)))"
    by simp_all
  from a b c d(1) first a' b' c' d'(1,3) second show ?thesis by simp
qed

text \<open>
  Counterexample to C2 as stated: status 500, content type \<^verbatim>\<open>application/json\<close>, a
  body that is not JSON and a wanted response; the invocation fails.
\<close>

theorem error_status_with_undecodable_body:
  "resp_status bad_json = 500
   \<and> resp_content_type bad_json = ''application/json''
   \<and> resp_json bad_json = Inl JSONDecodeError
   \<and> async_service_handler (example_world (answers bad_json)) send_photo (upload True) =
       (Inl (decoding_error ''https://api.example.com/upload'' ''JSON''),
        [RenderUrl ''https://api.example.com/upload'', PathExists (PStr ''/config/www/image.jpg''),
         FileOpen (PStr ''/config/www/image.jpg''), Request photo_request, FileClose 3,
         Log Warning ''https://api.example.com/upload'' 500, ReadJson, ExitResponse])"
proof -
  have r: "read_body bad_json = (Inl JSONDecodeError, [ReadJson])"
    by (simp add: read_body_def bad_json_def example_response_def)
  have "try_send (example_world (answers bad_json)) send_photo (upload True)
          ''https://api.example.com/upload'' (PStr ''/config/www/image.jpg'') [] =
        (Inl (decoding_error ''https://api.example.com/upload'' ''JSON''),
         FileOpen (PStr ''/config/www/image.jpg'')
           # transport_events photo_request 3 (answers bad_json)
           @ log_status bad_json # [ReadJson] @ [ExitResponse])"
    using try_send_undecoded[OF example_opens, of "answers bad_json" send_photo
        "''https://api.example.com/upload''" "[]" bad_json "upload True" JSONDecodeError "[ReadJson]"] r
    by (simp add: example_sends photo_request_def answers_def upload_def)
  moreover have "log_status bad_json = Log Warning ''https://api.example.com/upload'' 500"
    by (simp add: log_status_def bad_json_def example_response_def BAD_REQUEST_def)
  ultimately show ?thesis
    by (simp add: example_reaches transport_events_def answers_def)
       (simp add: bad_json_def example_response_def)
qed

subsection \<open>C4: the file object is closed by the client session or not at all\<close>

text \<open>
  Claim C4, as amended. The handler has no statement that closes the file object it
  opens. On every execution path, the file object is closed when the invocation completes
  exactly when the client session closed it while handling the request; and on every path
  on which the file was opened, the request was made with that file object as the form
  field \<^verbatim>\<open>file\<close>. A request that the client session refuses without touching the
  file therefore leaves the file open.
\<close>

theorem file_handle_is_closed_only_by_the_transport:
  "(FileClose h \<in> set (snd (async_service_handler w c s))
      \<longleftrightarrow> (\<exists>req. Request req \<in> set (snd (async_service_handler w c s)) \<and>
                 req_data req = [(''file'', h)] \<and> closes_file (send w req)))
   \<and> (\<forall>fp. FileOpen fp \<in> set (snd (async_service_handler w c s)) \<and> py_open w fp = Inr h
         \<longrightarrow> (\<exists>req. Request req \<in> set (snd (async_service_handler w c s)) \<and>
                  req_data req = [(''file'', h)]))"
proof (intro conjI iffI allI impI)
  assume "FileClose h \<in> set (snd (async_service_handler w c s))"
  then show "\<exists>req. Request req \<in> set (snd (async_service_handler w c s)) \<and>
                 req_data req = [(''file'', h)] \<and> closes_file (send w req)"
    by (rule file_close_origin)
next
  assume "\<exists>req. Request req \<in> set (snd (async_service_handler w c s)) \<and>
                 req_data req = [(''file'', h)] \<and> closes_file (send w req)"
  then show "FileClose h \<in> set (snd (async_service_handler w c s))"
    using file_close_by_transport by blast
next
  fix fp
  assume a: "FileOpen fp \<in> set (snd (async_service_handler w c s)) \<and> py_open w fp = Inr h"
  from file_open_origin[of fp w c s] a obtain u p rendered evs where
    path: "render w (conf_url c) (data s) = Inr u" "dict_get (data s) ''file'' = PStr p"
      "stat_ok w p" "render_headers w (data s) (template_headers_of c) [] = (Inr rendered, evs)"
    and fp: "fp = PStr p"
    by blast
  from a fp have op: "open_rb w p = Inr h" by simp
  from handler_request_issued[OF path op]
  have "Request (make_request c u h (apply_content_type (conf_content_type c) rendered))
          \<in> set (snd (async_service_handler w c s))"
    by (auto simp: transport_events_def)
  then show "\<exists>req. Request req \<in> set (snd (async_service_handler w c s)) \<and>
                  req_data req = [(''file'', h)]"
    by (intro exI[of _ "make_request c u h (apply_content_type (conf_content_type c) rendered)"])
       simp
qed

text \<open>
  Witness for C4: a successful upload through a client session that closes the file.
\<close>

theorem file_handle_is_closed_only_by_the_transport_witness:
  "FileOpen (PStr ''/config/www/image.jpg'')
     \<in> set (snd (async_service_handler (example_world (answers json_ok)) send_photo (upload False)))
   \<and> py_open (example_world (answers json_ok)) (PStr ''/config/www/image.jpg'') = Inr 3
   \<and> Request photo_request
       \<in> set (snd (async_service_handler (example_world (answers json_ok)) send_photo
                     (upload False)))
   \<and> req_data photo_request = [(''file'', 3)]
   \<and> closes_file (send (example_world (answers json_ok)) photo_request)
   \<and> FileClose 3
       \<in> set (snd (async_service_handler (example_world (answers json_ok)) send_photo
                     (upload False)))"
proof -
  have a: "Request photo_request
       \<in> set (snd (async_service_handler (example_world (answers json_ok)) send_photo
                     (upload False)))"
    by (simp add: example_answers)
  have b: "req_data photo_request = [(''file'', 3)]" by (simp add: photo_request_def)
  have c: "closes_file (send (example_world (answers json_ok)) photo_request)"
    by (simp add: example_sends answers_def)
  have d: "FileOpen (PStr ''/config/www/image.jpg'')
     \<in> set (snd (async_service_handler (example_world (answers json_ok)) send_photo (upload False)))"
    by (simp add: example_answers)
  from file_handle_is_closed_only_by_the_transport
         [of 3 "example_world (answers json_ok)" send_photo "upload False"] a b c
  have "FileClose 3
       \<in> set (snd (async_service_handler (example_world (answers json_ok)) send_photo
                     (upload False)))"
    by blast
  with a b c d show ?thesis by (simp add: example_world_def example_open_def)
qed

text \<open>
  Counterexample to C4 as stated: the client session raises \<^verbatim>\<open>ClientError\<close> and does
  not close the file; the invocation completes with the client error and the file object
  (handle 3) is never closed.
\<close>

theorem refused_upload_leaves_the_file_open:
  "py_open (example_world (refuses ClientError)) (PStr ''/config/www/image.jpg'') = Inr 3
   \<and> async_service_handler (example_world (refuses ClientError)) send_photo (upload False) =
       (Inl (client_error ''https://api.example.com/upload''),
        [RenderUrl ''https://api.example.com/upload'', PathExists (PStr ''/config/www/image.jpg''),
         FileOpen (PStr ''/config/www/image.jpg''), Request photo_request, LogError ClientError])
   \<and> FileClose 3
       \<notin> set (snd (async_service_handler (example_world (refuses ClientError)) send_photo
                     (upload False)))"
  by (simp add: example_refuses) (simp add: example_world_def example_open_def)

subsection \<open>C5: a call without the \<^verbatim>\<open>file\<close> parameter\<close>

text \<open>
  Claim C5 at the failing input: a call of \<^verbatim>\<open>send_photo\<close> whose data has no
  \<^verbatim>\<open>file\<close> key. \<^verbatim>\<open>service.data.get("file")\<close> is \<^verbatim>\<open>None\<close> and
  \<^verbatim>\<open>os.path.exists(None)\<close> raises \<^verbatim>\<open>TypeError\<close>, which no clause of the handler
  catches and which is not a \<^verbatim>\<open>HomeAssistantError\<close>: the caller gets an unclassified
  failure. (\<^verbatim>\<open>CALL_SCHEMA\<close>, which requires the key, is defined in the module and
  never given to \<^verbatim>\<open>async_register\<close>.)
\<close>

theorem call_without_file_raises_TypeError:
  "data upload_nothing ''file'' = None
   \<and> async_service_handler (example_world (answers json_ok)) send_photo upload_nothing =
       (Inl TypeError, [RenderUrl ''https://api.example.com/upload'', PathExists PNone])
   \<and> \<not> is_HomeAssistantError TypeError"
  by (simp add: async_service_handler_def example_world_def example_render_def send_photo_def
      upload_nothing_def dict_get_def)

subsection \<open>C6: the choice of the decoder and the decoding errors\<close>

lemma decode_dispatch_by_exception_class:
  assumes "Request req \<in> set (snd (async_service_handler w c s))"
    and "outcome (send w req) = Inr r"
    and "return_response s"
  shows "render w (conf_url c) (data s) = Inr (req_url req)
       \<and> (resp_content_type r = ''application/json'' \<longrightarrow>
            ReadJson \<in> set (snd (async_service_handler w c s))
            \<and> ReadText \<notin> set (snd (async_service_handler w c s))
            \<and> (\<forall>j. resp_json r = Inr j \<longrightarrow>
                  fst (async_service_handler w c s)
                    = Inr (Some \<lparr>content = JsonContent j, status = resp_status r\<rparr>))
            \<and> (resp_json r = Inl JSONDecodeError \<or> resp_json r = Inl AttributeError \<longrightarrow>
                  fst (async_service_handler w c s) = Inl (decoding_error (req_url req) ''JSON''))
            \<and> (resp_json r = Inl UnicodeDecodeError \<longrightarrow>
                  fst (async_service_handler w c s) = Inl (decoding_error (req_url req) ''text'')))
       \<and> (resp_content_type r \<noteq> ''application/json'' \<longrightarrow>
            ReadText \<in> set (snd (async_service_handler w c s))
            \<and> ReadJson \<notin> set (snd (async_service_handler w c s))
            \<and> (\<forall>t. resp_text r = Inr t \<longrightarrow>
                  fst (async_service_handler w c s)
                    = Inr (Some \<lparr>content = TextContent t, status = resp_status r\<rparr>))
            \<and> (resp_text r = Inl UnicodeDecodeError \<longrightarrow>
                  fst (async_service_handler w c s) = Inl (decoding_error (req_url req) ''text''))
            \<and> (resp_text r = Inl JSONDecodeError \<or> resp_text r = Inl AttributeError \<longrightarrow>
                  fst (async_service_handler w c s) = Inl (decoding_error (req_url req) ''JSON'')))"
proof -
  note h = handler_answered[OF assms(1,2)]
  let ?u = "req_url req"
  have res: "fst (async_service_handler w c s)
           = (case fst (handle_response s ?u r) of
                Inr v \<Rightarrow> Inr v
              | Inl e \<Rightarrow>
                  Inl (if is_TimeoutError e then timeout_error ?u
                       else if is_ClientError e then client_error ?u else e))"
    using h by blast
  have sub: "set (snd (handle_response s ?u r)) \<subseteq> set (snd (async_service_handler w c s))"
    using h by blast
  have reads: "ev \<in> set (snd (handle_response s ?u r))"
    if "ev \<in> set (snd (async_service_handler w c s))" and "ev = ReadJson \<or> ev = ReadText" for ev
    using h that by blast
  have json: "ReadJson \<in> set (snd (async_service_handler w c s))
            \<and> ReadText \<notin> set (snd (async_service_handler w c s))
            \<and> (\<forall>j. resp_json r = Inr j \<longrightarrow>
                  fst (async_service_handler w c s)
                    = Inr (Some \<lparr>content = JsonContent j, status = resp_status r\<rparr>))
            \<and> (resp_json r = Inl JSONDecodeError \<or> resp_json r = Inl AttributeError \<longrightarrow>
                  fst (async_service_handler w c s) = Inl (decoding_error ?u ''JSON''))
            \<and> (resp_json r = Inl UnicodeDecodeError \<longrightarrow>
                  fst (async_service_handler w c s) = Inl (decoding_error ?u ''text''))"
    if ct: "resp_content_type r = ''application/json''"
  proof -
    note hr = handle_response_json[OF assms(3) ct, where u = ?u]
    have a: "ReadJson \<in> set (snd (async_service_handler w c s))"
      using sub hr(1) by simp
    have b: "ReadText \<notin> set (snd (async_service_handler w c s))"
    proof
      assume "ReadText \<in> set (snd (async_service_handler w c s))"
      from reads[OF this] hr(1) show False by simp
    qed
    have c: "fst (async_service_handler w c s)
                    = Inr (Some \<lparr>content = JsonContent j, status = resp_status r\<rparr>)"
      if "resp_json r = Inr j" for j
      using hr(2)[OF that] res by simp
    have d: "fst (async_service_handler w c s) = Inl (decoding_error ?u ''JSON'')"
      if "resp_json r = Inl JSONDecodeError \<or> resp_json r = Inl AttributeError"
      using hr(3)[OF that] res by simp
    have e: "fst (async_service_handler w c s) = Inl (decoding_error ?u ''text'')"
      if "resp_json r = Inl UnicodeDecodeError"
      using hr(4)[OF that] res by simp
    from a b c d e show ?thesis by blast
  qed
  have plain: "ReadText \<in> set (snd (async_service_handler w c s))
            \<and> ReadJson \<notin> set (snd (async_service_handler w c s))
            \<and> (\<forall>t. resp_text r = Inr t \<longrightarrow>
                  fst (async_service_handler w c s)
                    = Inr (Some \<lparr>content = TextContent t, status = resp_status r\<rparr>))
            \<and> (resp_text r = Inl UnicodeDecodeError \<longrightarrow>
                  fst (async_service_handler w c s) = Inl (decoding_error ?u ''text''))
            \<and> (resp_text r = Inl JSONDecodeError \<or> resp_text r = Inl AttributeError \<longrightarrow>
                  fst (async_service_handler w c s) = Inl (decoding_error ?u ''JSON''))"
    if ct: "resp_content_type r \<noteq> ''application/json''"
  proof -
    note hr = handle_response_text[OF assms(3) ct, where u = ?u]
    have a: "ReadText \<in> set (snd (async_service_handler w c s))"
      using sub hr(1) by simp
    have b: "ReadJson \<notin> set (snd (async_service_handler w c s))"
    proof
      assume "ReadJson \<in> set (snd (async_service_handler w c s))"
      from reads[OF this] hr(1) show False by simp
    qed
    have c: "fst (async_service_handler w c s)
                    = Inr (Some \<lparr>content = TextContent t, status = resp_status r\<rparr>)"
      if "resp_text r = Inr t" for t
      using hr(2)[OF that] res by simp
    have d: "fst (async_service_handler w c s) = Inl (decoding_error ?u ''JSON'')"
      if "resp_text r = Inl JSONDecodeError \<or> resp_text r = Inl AttributeError"
      using hr(3)[OF that] res by simp
    have e: "fst (async_service_handler w c s) = Inl (decoding_error ?u ''text'')"
      if "resp_text r = Inl UnicodeDecodeError"
      using hr(4)[OF that] res by simp
    from a b c d e show ?thesis by blast
  qed
  have url: "render w (conf_url c) (data s) = Inr ?u" using h by blast
  from url json plain show ?thesis by blast
qed

text \<open>
  Claim C6, as amended. When a response is wanted and the client session answers the
  request, a content type that is exactly \<^verbatim>\<open>application/json\<close> is read with
  \<^verbatim>\<open>response.json()\<close> and only with it, any other content type with
  \<^verbatim>\<open>response.text()\<close> and only with it, and a successful read is returned with the
  status. A failed read raises \<^verbatim>\<open>HomeAssistantError\<close> with the translation key
  \<^verbatim>\<open>decoding_error\<close> and the placeholders \<^verbatim>\<open>request_url\<close>, the rendered request
  URL, and \<^verbatim>\<open>decoding_type\<close>. The decoding type follows the class of the exception,
  not the decoder that was called: \<^verbatim>\<open>JSONDecodeError\<close> and \<^verbatim>\<open>AttributeError\<close>
  give \<^verbatim>\<open>JSON\<close>, \<^verbatim>\<open>UnicodeDecodeError\<close> gives \<^verbatim>\<open>text\<close>, on both paths. So
  it names the decoder that was tried when the JSON read fails with a JSON error and
  when the text read fails with an encoding error.
\<close>

theorem decode_dispatch_and_decoding_errors:
  assumes "Request req \<in> set (snd (async_service_handler w c s))"
    and "outcome (send w req) = Inr r"
    and "return_response s"
  shows "render w (conf_url c) (data s) = Inr (req_url req)
       \<and> (resp_content_type r = ''application/json'' \<longrightarrow>
            ReadJson \<in> set (snd (async_service_handler w c s))
            \<and> ReadText \<notin> set (snd (async_service_handler w c s))
            \<and> (\<forall>j. resp_json r = Inr j \<longrightarrow>
                  fst (async_service_handler w c s)
                    = Inr (Some \<lparr>content = JsonContent j, status = resp_status r\<rparr>))
            \<and> (resp_json r = Inl JSONDecodeError \<or> resp_json r = Inl AttributeError \<longrightarrow>
                  fst (async_service_handler w c s)
                    = Inl (HomeAssistantError (Translated ''rest_file_command'' ''decoding_error''
                             [(''request_url'', req_url req), (''decoding_type'', ''JSON'')])))
            \<and> (resp_json r = Inl UnicodeDecodeError \<longrightarrow>
                  fst (async_service_handler w c s)
                    = Inl (HomeAssistantError (Translated ''rest_file_command'' ''decoding_error''
                             [(''request_url'', req_url req), (''decoding_type'', ''text'')]))))
       \<and> (resp_content_type r \<noteq> ''application/json'' \<longrightarrow>
            ReadText \<in> set (snd (async_service_handler w c s))
            \<and> ReadJson \<notin> set (snd (async_service_handler w c s))
            \<and> (\<forall>t. resp_text r = Inr t \<longrightarrow>
                  fst (async_service_handler w c s)
                    = Inr (Some \<lparr>content = TextContent t, status = resp_status r\<rparr>))
            \<and> (resp_text r = Inl UnicodeDecodeError \<longrightarrow>
                  fst (async_service_handler w c s)
                    = Inl (HomeAssistantError (Translated ''rest_file_command'' ''decoding_error''
                             [(''request_url'', req_url req), (''decoding_type'', ''text'')])))
            \<and> (resp_text r = Inl JSONDecodeError \<or> resp_text r = Inl AttributeError \<longrightarrow>
                  fst (async_service_handler w c s)
                    = Inl (HomeAssistantError (Translated ''rest_file_command'' ''decoding_error''
                             [(''request_url'', req_url req), (''decoding_type'', ''JSON'')]))))"
proof -
  have json: "decoding_error (req_url req) ''JSON''
      = HomeAssistantError (Translated ''rest_file_command'' ''decoding_error''
          [(''request_url'', req_url req), (''decoding_type'', ''JSON'')])"
    by (simp add: decoding_error_def DOMAIN_def)
  have plain: "decoding_error (req_url req) ''text''
      = HomeAssistantError (Translated ''rest_file_command'' ''decoding_error''
          [(''request_url'', req_url req), (''decoding_type'', ''text'')])"
    by (simp add: decoding_error_def DOMAIN_def)
  from decode_dispatch_by_exception_class[OF assms] show ?thesis
    unfolding json plain .
qed

text \<open>
  Witness for C6: a JSON body that decodes, a text body that decodes, and a body
  announced as JSON that is not JSON.
\<close>

theorem decode_dispatch_and_decoding_errors_witness:
  "Request photo_request
     \<in> set (snd (async_service_handler (example_world (answers json_ok)) send_photo (upload True)))
   \<and> outcome (send (example_world (answers json_ok)) photo_request) = Inr json_ok
   \<and> return_response (upload True)
   \<and> resp_content_type json_ok = ''application/json''
   \<and> resp_json json_ok = Inr (JArr [JNum 1])
   \<and> ReadJson
       \<in> set (snd (async_service_handler (example_world (answers json_ok)) send_photo
                     (upload True)))
   \<and> fst (async_service_handler (example_world (answers json_ok)) send_photo (upload True))
       = Inr (Some \<lparr>content = JsonContent (JArr [JNum 1]), status = 200\<rparr>)
   \<and> Request photo_request
       \<in> set (snd (async_service_handler (example_world (answers server_error)) send_photo
                     (upload True)))
   \<and> outcome (send (example_world (answers server_error)) photo_request) = Inr server_error
   \<and> resp_content_type server_error \<noteq> ''application/json''
   \<and> resp_text server_error = Inr ''error''
   \<and> ReadText
       \<in> set (snd (async_service_handler (example_world (answers server_error)) send_photo
                     (upload True)))
   \<and> fst (async_service_handler (example_world (answers server_error)) send_photo (upload True))
       = Inr (Some \<lparr>content = TextContent ''error'', status = 500\<rparr>)
   \<and> Request photo_request
       \<in> set (snd (async_service_handler (example_world (answers bad_json)) send_photo
                     (upload True)))
   \<and> outcome (send (example_world (answers bad_json)) photo_request) = Inr bad_json
   \<and> resp_content_type bad_json = ''application/json''
   \<and> resp_json bad_json = Inl JSONDecodeError
   \<and> fst (async_service_handler (example_world (answers bad_json)) send_photo (upload True))
       = Inl (HomeAssistantError (Translated ''rest_file_command'' ''decoding_error''
                [(''request_url'', ''https://api.example.com/upload''),
                 (''decoding_type'', ''JSON'')]))"
proof -
  have u: "req_url photo_request = ''https://api.example.com/upload''"
    by (simp add: photo_request_def)
  have c: "return_response (upload True)" by (simp add: upload_def)
  have a1: "Request photo_request
     \<in> set (snd (async_service_handler (example_world (answers json_ok)) send_photo (upload True)))"
    by (rule example_request)
  have b1: "outcome (send (example_world (answers json_ok)) photo_request) = Inr json_ok"
    by (rule example_outcome)
  have d1: "resp_content_type json_ok = ''application/json''"
    "resp_json json_ok = Inr (JArr [JNum 1])" "resp_status json_ok = 200"
    by (simp_all add: json_ok_def example_response_def)
  from decode_dispatch_and_decoding_errors[OF a1 b1 c] d1
  have r1: "ReadJson
       \<in> set (snd (async_service_handler (example_world (answers json_ok)) send_photo
                     (upload True)))"
    "fst (async_service_handler (example_world (answers json_ok)) send_photo (upload True))
       = Inr (Some \<lparr>content = JsonContent (JArr [JNum 1]), status = 200\<rparr>)"
    by simp_all
  have a2: "Request photo_request
     \<in> set (snd (async_service_handler (example_world (answers server_error)) send_photo
                   (upload True)))"
    by (rule example_request)
  have b2: "outcome (send (example_world (answers server_error)) photo_request) = Inr server_error"
    by (rule example_outcome)
  have d2: "resp_content_type server_error \<noteq> ''application/json''"
    "resp_text server_error = Inr ''error''" "resp_status server_error = 500"
    by (simp_all add: server_error_def example_response_def)
  from decode_dispatch_and_decoding_errors[OF a2 b2 c] d2
  have r2: "ReadText
       \<in> set (snd (async_service_handler (example_world (answers server_error)) send_photo
                     (upload True)))"
    "fst (async_service_handler (example_world (answers server_error)) send_photo (upload True))
       = Inr (Some \<lparr>content = TextContent ''error'', status = 500\<rparr>)"
    by simp_all
  have a3: "Request photo_request
     \<in> set (snd (async_service_handler (example_world (answers bad_json)) send_photo
                   (upload True)))"
    by (rule example_request)
  have b3: "outcome (send (example_world (answers bad_json)) photo_request) = Inr bad_json"
    by (rule example_outcome)
  have d3: "resp_content_type bad_json = ''application/json''"
    "resp_json bad_json = Inl JSONDecodeError"
    by (simp_all add: bad_json_def example_response_def)
  from decode_dispatch_and_decoding_errors[OF a3 b3 c] d3 u
  have r3: "fst (async_service_handler (example_world (answers bad_json)) send_photo (upload True))
       = Inl (HomeAssistantError (Translated ''rest_file_command'' ''decoding_error''
                [(''request_url'', ''https://api.example.com/upload''),
                 (''decoding_type'', ''JSON'')]))"
    by simp
  from a1 b1 c d1(1,2) r1 a2 b2 d2(1,2) r2 a3 b3 d3 r3 show ?thesis by simp
qed

text \<open>
  Counterexample to C6 as stated: the content type is \<^verbatim>\<open>application/json\<close>, so the
  JSON decoder is the one tried (\<open>ReadJson\<close> is in the trace), its bytes do not decode
  in the response's character set, and the error raised has the decoding type
  \<^verbatim>\<open>text\<close>, not \<^verbatim>\<open>JSON\<close>.
\<close>

theorem json_with_undecodable_bytes_reports_text:
  "resp_content_type bad_bytes = ''application/json''
   \<and> resp_json bad_bytes = Inl UnicodeDecodeError
   \<and> async_service_handler (example_world (answers bad_bytes)) send_photo (upload True) =
       (Inl (HomeAssistantError (Translated ''rest_file_command'' ''decoding_error''
               [(''request_url'', ''https://api.example.com/upload''),
                (''decoding_type'', ''text'')])),
        [RenderUrl ''https://api.example.com/upload'', PathExists (PStr ''/config/www/image.jpg''),
         FileOpen (PStr ''/config/www/image.jpg''), Request photo_request, FileClose 3,
         Log Debug ''https://api.example.com/upload'' 200, ReadJson, ExitResponse])
   \<and> fst (async_service_handler (example_world (answers bad_bytes)) send_photo (upload True))
       \<noteq> Inl (HomeAssistantError (Translated ''rest_file_command'' ''decoding_error''
                 [(''request_url'', ''https://api.example.com/upload''),
                  (''decoding_type'', ''JSON'')]))"
proof -
  have r: "read_body bad_bytes = (Inl UnicodeDecodeError, [ReadJson])"
    by (simp add: read_body_def bad_bytes_def example_response_def)
  have "try_send (example_world (answers bad_bytes)) send_photo (upload True)
          ''https://api.example.com/upload'' (PStr ''/config/www/image.jpg'') [] =
        (Inl (decoding_error ''https://api.example.com/upload'' ''text''),
         FileOpen (PStr ''/config/www/image.jpg'')
           # transport_events photo_request 3 (answers bad_bytes)
           @ log_status bad_bytes # [ReadJson] @ [ExitResponse])"
    using try_send_undecoded[OF example_opens, of "answers bad_bytes" send_photo
        "''https://api.example.com/upload''" "[]" bad_bytes "upload True" UnicodeDecodeError
        "[ReadJson]"] r
    by (simp add: example_sends photo_request_def answers_def upload_def)
  moreover have "log_status bad_bytes = Log Debug ''https://api.example.com/upload'' 200"
    by (simp add: log_status_def bad_bytes_def example_response_def BAD_REQUEST_def)
  ultimately have "async_service_handler (example_world (answers bad_bytes)) send_photo
                     (upload True) =
       (Inl (decoding_error ''https://api.example.com/upload'' ''text''),
        [RenderUrl ''https://api.example.com/upload'', PathExists (PStr ''/config/www/image.jpg''),
         FileOpen (PStr ''/config/www/image.jpg''), Request photo_request, FileClose 3,
         Log Debug ''https://api.example.com/upload'' 200, ReadJson, ExitResponse])"
    by (simp add: example_reaches transport_events_def answers_def)
  then show ?thesis
    by (simp add: decoding_error_def DOMAIN_def) (simp add: bad_bytes_def example_response_def)
qed

subsection \<open>C7: timeouts, client errors and no retry\<close>

lemma no_request_in_headers:
  "render_headers w d ts hs = (r, evs) \<Longrightarrow> filter is_Request evs = []"
proof -
  assume a: "render_headers w d ts hs = (r, evs)"
  have "\<not> is_Request ev" if "ev \<in> set evs" for ev
    using render_headers_events[OF a that] by auto
  then show ?thesis by (simp add: filter_empty_conv)
qed

lemma no_request_in_response:
  "handle_response s u r = (res, evs) \<Longrightarrow> filter is_Request evs = []"
proof -
  assume a: "handle_response s u r = (res, evs)"
  have "\<not> is_Request ev" if "ev \<in> set evs" for ev
    using handle_response_events[OF a that] by (auto simp: log_status_def split: if_splits)
  then show ?thesis by (simp add: filter_empty_conv)
qed

lemma try_body_requests:
  "length (filter is_Request (snd (try_body w c s u fp hs))) \<le> 1"
  by (auto simp: try_body_def Let_def transport_events_def no_request_in_response
      split: sum.splits prod.splits)

lemma try_send_requests:
  "length (filter is_Request (snd (try_send w c s u fp hs))) \<le> 1"
proof -
  have "filter is_Request (snd (try_send w c s u fp hs))
          = filter is_Request (snd (try_body w c s u fp hs))"
    by (auto simp: try_send_def split: sum.splits prod.splits)
  then show ?thesis using try_body_requests[of w c s u fp hs] by simp
qed

lemma handler_requests:
  "length (filter is_Request (snd (async_service_handler w c s))) \<le> 1"
proof (cases "render w (conf_url c) (data s)")
  case (Inl e)
  then show ?thesis by (simp add: async_service_handler_def)
next
  case (Inr u)
  note u = this
  show ?thesis
  proof (cases "dict_get (data s) ''file''")
    case PNone
    with u show ?thesis by (simp add: async_service_handler_def Let_def)
  next
    case (PStr p)
    note p = this
    show ?thesis
    proof (cases "stat_ok w p")
      case False
      with u p show ?thesis by (simp add: async_service_handler_def Let_def)
    next
      case True
      obtain r evs where rh: "render_headers w (data s) (template_headers_of c) [] = (r, evs)"
        by (cases "render_headers w (data s) (template_headers_of c) []")
      note none = no_request_in_headers[OF rh]
      show ?thesis
      proof (cases r)
        case (Inl e)
        with u p True rh none show ?thesis by (simp add: async_service_handler_def Let_def)
      next
        case (Inr rendered)
        with rh have rh': "render_headers w (data s) (template_headers_of c) [] = (Inr rendered, evs)"
          by simp
        show ?thesis
          using try_send_requests[of w c s u "PStr p"
              "apply_content_type (conf_content_type c) rendered"] none
          by (simp add: handler_reached[OF u p True rh'])
      qed
    qed
  qed
qed

lemma handler_refused:
  assumes "Request req \<in> set (snd (async_service_handler w c s))"
    and "outcome (send w req) = Inl e"
  shows "render w (conf_url c) (data s) = Inr (req_url req)"
    and "is_TimeoutError e \<Longrightarrow>
           fst (async_service_handler w c s) = Inl (timeout_error (req_url req))"
    and "\<not> is_TimeoutError e \<Longrightarrow> is_ClientError e \<Longrightarrow>
           fst (async_service_handler w c s) = Inl (client_error (req_url req))
           \<and> LogError e \<in> set (snd (async_service_handler w c s))"
    and "\<not> is_TimeoutError e \<Longrightarrow> \<not> is_ClientError e \<Longrightarrow>
           fst (async_service_handler w c s) = Inl e"
proof -
  from handler_request[OF assms(1)] obtain u p rendered evs h where
    path: "render w (conf_url c) (data s) = Inr u" "dict_get (data s) ''file'' = PStr p"
      "stat_ok w p" "render_headers w (data s) (template_headers_of c) [] = (Inr rendered, evs)"
      "open_rb w p = Inr h"
      "req = make_request c u h (apply_content_type (conf_content_type c) rendered)"
    by blast
  let ?hs = "apply_content_type (conf_content_type c) rendered"
  note reached = handler_reached[OF path(1-4)]
  have url: "req_url req = u" using path(6) by simp
  have opened: "py_open w (PStr p) = Inr h" using path(5) by simp
  have refused: "outcome (send w (make_request c u h ?hs)) = Inl e"
    using assms(2) path(6) by simp
  note ts = try_send_raised[OF opened refused, of s]
  show "render w (conf_url c) (data s) = Inr (req_url req)" using path(1) url by simp
  show "fst (async_service_handler w c s) = Inl (timeout_error (req_url req))"
    if "is_TimeoutError e"
    using that ts reached url by simp
  show "fst (async_service_handler w c s) = Inl (client_error (req_url req))
           \<and> LogError e \<in> set (snd (async_service_handler w c s))"
    if "\<not> is_TimeoutError e" and "is_ClientError e"
    using that ts reached url by simp
  show "fst (async_service_handler w c s) = Inl e"
    if "\<not> is_TimeoutError e" and "\<not> is_ClientError e"
    using that ts reached url by simp
qed

lemma transport_faults_by_class:
  "length (filter is_Request (snd (async_service_handler w c s))) \<le> 1
   \<and> (\<forall>req e. Request req \<in> set (snd (async_service_handler w c s))
                \<and> outcome (send w req) = Inl e \<longrightarrow>
         render w (conf_url c) (data s) = Inr (req_url req)
         \<and> (is_TimeoutError e \<longrightarrow>
              fst (async_service_handler w c s) = Inl (timeout_error (req_url req)))
         \<and> (\<not> is_TimeoutError e \<and> is_ClientError e \<longrightarrow>
              fst (async_service_handler w c s) = Inl (client_error (req_url req))
              \<and> LogError e \<in> set (snd (async_service_handler w c s))))"
proof (intro conjI allI impI)
  show "length (filter is_Request (snd (async_service_handler w c s))) \<le> 1"
    by (rule handler_requests)
next
  fix req e
  assume a: "Request req \<in> set (snd (async_service_handler w c s))
               \<and> outcome (send w req) = Inl e"
  then show "render w (conf_url c) (data s) = Inr (req_url req)"
    using handler_refused(1) by blast
next
  fix req e
  assume a: "Request req \<in> set (snd (async_service_handler w c s))
               \<and> outcome (send w req) = Inl e"
    and b: "is_TimeoutError e"
  from a b show "fst (async_service_handler w c s) = Inl (timeout_error (req_url req))"
    using handler_refused(2) by blast
next
  fix req e
  assume a: "Request req \<in> set (snd (async_service_handler w c s))
               \<and> outcome (send w req) = Inl e"
    and b: "\<not> is_TimeoutError e \<and> is_ClientError e"
  from a b handler_refused(3)[of req w c s e]
  show "fst (async_service_handler w c s) = Inl (client_error (req_url req))" by blast
next
  fix req e
  assume a: "Request req \<in> set (snd (async_service_handler w c s))
               \<and> outcome (send w req) = Inl e"
    and b: "\<not> is_TimeoutError e \<and> is_ClientError e"
  from a b handler_refused(3)[of req w c s e]
  show "LogError e \<in> set (snd (async_service_handler w c s))" by blast
qed

lemma handle_response_read_fault:
  assumes "return_response s"
    and "(resp_content_type r = ''application/json'' \<and> resp_json r = Inl e)
         \<or> (resp_content_type r \<noteq> ''application/json'' \<and> resp_text r = Inl e)"
    and "is_TimeoutError e \<or> is_ClientError e"
  shows "fst (handle_response s u r) = Inl e"
proof -
  have "e \<noteq> JSONDecodeError" "e \<noteq> AttributeError" "e \<noteq> UnicodeDecodeError"
    using assms(3) by auto
  with assms(1,2) show ?thesis
    by (auto simp: handle_response_def read_body_def)
qed

lemma try_send_read_fault:
  assumes "py_open w fp = Inr h"
    and "outcome (send w (make_request c u h hs)) = Inr r"
    and "fst (handle_response s u r) = Inl e"
  shows "fst (try_send w c s u fp hs)
           = Inl (if is_TimeoutError e then timeout_error u
                  else if is_ClientError e then client_error u else e)"
    and "\<not> is_TimeoutError e \<Longrightarrow> is_ClientError e
           \<Longrightarrow> LogError e \<in> set (snd (try_send w c s u fp hs))"
  using assms
  by (auto simp: try_send_def try_body_def Let_def split: sum.splits prod.splits)

lemma handler_read_fault:
  assumes "Request req \<in> set (snd (async_service_handler w c s))"
    and "outcome (send w req) = Inr r"
    and "return_response s"
    and "(resp_content_type r = ''application/json'' \<and> resp_json r = Inl e)
         \<or> (resp_content_type r \<noteq> ''application/json'' \<and> resp_text r = Inl e)"
  shows "is_TimeoutError e \<Longrightarrow>
           fst (async_service_handler w c s) = Inl (timeout_error (req_url req))"
    and "\<not> is_TimeoutError e \<Longrightarrow> is_ClientError e \<Longrightarrow>
           fst (async_service_handler w c s) = Inl (client_error (req_url req))
           \<and> LogError e \<in> set (snd (async_service_handler w c s))"
proof -
  from handler_request[OF assms(1)] obtain u p rendered evs h where
    path: "render w (conf_url c) (data s) = Inr u" "dict_get (data s) ''file'' = PStr p"
      "stat_ok w p" "render_headers w (data s) (template_headers_of c) [] = (Inr rendered, evs)"
      "open_rb w p = Inr h"
      "req = make_request c u h (apply_content_type (conf_content_type c) rendered)"
    by blast
  let ?hs = "apply_content_type (conf_content_type c) rendered"
  note reached = handler_reached[OF path(1-4)]
  have url: "req_url req = u" using path(6) by simp
  have opened: "py_open w (PStr p) = Inr h" using path(5) by simp
  have answered: "outcome (send w (make_request c u h ?hs)) = Inr r"
    using assms(2) path(6) by simp
  show "fst (async_service_handler w c s) = Inl (timeout_error (req_url req))"
    if t: "is_TimeoutError e"
  proof -
    from t have "is_TimeoutError e \<or> is_ClientError e" by simp
    from handle_response_read_fault[OF assms(3,4) this]
    have "fst (handle_response s u r) = Inl e" .
    from try_send_read_fault(1)[OF opened answered this] t reached url show ?thesis by simp
  qed
  show "fst (async_service_handler w c s) = Inl (client_error (req_url req))
           \<and> LogError e \<in> set (snd (async_service_handler w c s))"
    if nt: "\<not> is_TimeoutError e" and cl: "is_ClientError e"
  proof -
    from cl have "is_TimeoutError e \<or> is_ClientError e" by simp
    from handle_response_read_fault[OF assms(3,4) this]
    have hr: "fst (handle_response s u r) = Inl e" .
    from try_send_read_fault(1)[OF opened answered hr] nt cl reached url
    have "fst (async_service_handler w c s) = Inl (client_error (req_url req))" by simp
    moreover from try_send_read_fault(2)[OF opened answered hr nt cl] reached
    have "LogError e \<in> set (snd (async_service_handler w c s))" by simp
    ultimately show ?thesis by simp
  qed
qed

text \<open>
  Claim C7. The handler makes at most one request in an invocation, so nothing is
  retried. When the client session raises on the request, the URL of the request is the
  rendered URL template; a timeout (\<^verbatim>\<open>TimeoutError\<close>, which the first
  \<^verbatim>\<open>except\<close> clause catches) makes the handler raise \<^verbatim>\<open>HomeAssistantError\<close> with
  the translation key \<^verbatim>\<open>timeout\<close> and that URL as \<^verbatim>\<open>request_url\<close>; any other
  \<^verbatim>\<open>aiohttp.ClientError\<close> makes it raise \<^verbatim>\<open>HomeAssistantError\<close> with the key
  \<^verbatim>\<open>client_error\<close> and that URL, and the exception is logged at error level. The same
  holds when the client session raises while the body of the response is read, which
  happens inside the same \<^verbatim>\<open>try\<close>.
\<close>

theorem transport_faults_are_classified_and_never_retried:
  "length (filter is_Request (snd (async_service_handler w c s))) \<le> 1
   \<and> (\<forall>req e. Request req \<in> set (snd (async_service_handler w c s))
                \<and> outcome (send w req) = Inl e \<longrightarrow>
         render w (conf_url c) (data s) = Inr (req_url req)
         \<and> (is_TimeoutError e \<longrightarrow>
              fst (async_service_handler w c s)
                = Inl (HomeAssistantError (Translated ''rest_file_command'' ''timeout''
                         [(''request_url'', req_url req)])))
         \<and> (\<not> is_TimeoutError e \<and> is_ClientError e \<longrightarrow>
              fst (async_service_handler w c s)
                = Inl (HomeAssistantError (Translated ''rest_file_command'' ''client_error''
                         [(''request_url'', req_url req)]))
              \<and> LogError e \<in> set (snd (async_service_handler w c s))))
   \<and> (\<forall>req r e. Request req \<in> set (snd (async_service_handler w c s))
                \<and> outcome (send w req) = Inr r \<and> return_response s
                \<and> ((resp_content_type r = ''application/json'' \<and> resp_json r = Inl e)
                    \<or> (resp_content_type r \<noteq> ''application/json'' \<and> resp_text r = Inl e))
              \<longrightarrow>
         (is_TimeoutError e \<longrightarrow>
              fst (async_service_handler w c s)
                = Inl (HomeAssistantError (Translated ''rest_file_command'' ''timeout''
                         [(''request_url'', req_url req)])))
         \<and> (\<not> is_TimeoutError e \<and> is_ClientError e \<longrightarrow>
              fst (async_service_handler w c s)
                = Inl (HomeAssistantError (Translated ''rest_file_command'' ''client_error''
                         [(''request_url'', req_url req)]))
              \<and> LogError e \<in> set (snd (async_service_handler w c s))))"
proof -
  have t: "timeout_error u
      = HomeAssistantError (Translated ''rest_file_command'' ''timeout'' [(''request_url'', u)])"
    for u by (simp add: timeout_error_def DOMAIN_def)
  have cl: "client_error u
      = HomeAssistantError (Translated ''rest_file_command'' ''client_error''
          [(''request_url'', u)])"
    for u by (simp add: client_error_def DOMAIN_def)
  have sent: "length (filter is_Request (snd (async_service_handler w c s))) \<le> 1
   \<and> (\<forall>req e. Request req \<in> set (snd (async_service_handler w c s))
                \<and> outcome (send w req) = Inl e \<longrightarrow>
         render w (conf_url c) (data s) = Inr (req_url req)
         \<and> (is_TimeoutError e \<longrightarrow>
              fst (async_service_handler w c s) = Inl (timeout_error (req_url req)))
         \<and> (\<not> is_TimeoutError e \<and> is_ClientError e \<longrightarrow>
              fst (async_service_handler w c s) = Inl (client_error (req_url req))
              \<and> LogError e \<in> set (snd (async_service_handler w c s))))"
    by (rule transport_faults_by_class)
  have rd: "(is_TimeoutError e \<longrightarrow>
              fst (async_service_handler w c s) = Inl (timeout_error (req_url req)))
         \<and> (\<not> is_TimeoutError e \<and> is_ClientError e \<longrightarrow>
              fst (async_service_handler w c s) = Inl (client_error (req_url req))
              \<and> LogError e \<in> set (snd (async_service_handler w c s)))"
    if "Request req \<in> set (snd (async_service_handler w c s))
                \<and> outcome (send w req) = Inr r \<and> return_response s
                \<and> ((resp_content_type r = ''application/json'' \<and> resp_json r = Inl e)
                    \<or> (resp_content_type r \<noteq> ''application/json'' \<and> resp_text r = Inl e))"
    for req r e
  proof -
    from that have a: "Request req \<in> set (snd (async_service_handler w c s))"
      and b: "outcome (send w req) = Inr r" and c: "return_response s"
      and d: "(resp_content_type r = ''application/json'' \<and> resp_json r = Inl e)
                    \<or> (resp_content_type r \<noteq> ''application/json'' \<and> resp_text r = Inl e)"
      by simp_all
    from handler_read_fault[OF a b c d] show ?thesis by blast
  qed
  from sent rd show ?thesis unfolding t cl by blast
qed

text \<open>
  Witness for C7: a client session that raises \<^verbatim>\<open>TimeoutError\<close> on the request, one
  that raises \<^verbatim>\<open>ClientError\<close> on it, and two that raise them while the body is read.
\<close>

theorem transport_faults_are_classified_and_never_retried_witness:
  "Request photo_request
     \<in> set (snd (async_service_handler (example_world (refuses TimeoutError)) send_photo
                   (upload False)))
   \<and> outcome (send (example_world (refuses TimeoutError)) photo_request) = Inl TimeoutError
   \<and> is_TimeoutError TimeoutError
   \<and> fst (async_service_handler (example_world (refuses TimeoutError)) send_photo (upload False))
       = Inl (HomeAssistantError (Translated ''rest_file_command'' ''timeout''
                [(''request_url'', ''https://api.example.com/upload'')]))
   \<and> Request photo_request
       \<in> set (snd (async_service_handler (example_world (refuses ClientError)) send_photo
                     (upload False)))
   \<and> outcome (send (example_world (refuses ClientError)) photo_request) = Inl ClientError
   \<and> \<not> is_TimeoutError ClientError \<and> is_ClientError ClientError
   \<and> fst (async_service_handler (example_world (refuses ClientError)) send_photo (upload False))
       = Inl (HomeAssistantError (Translated ''rest_file_command'' ''client_error''
                [(''request_url'', ''https://api.example.com/upload'')]))
   \<and> LogError ClientError
       \<in> set (snd (async_service_handler (example_world (refuses ClientError)) send_photo
                     (upload False)))
   \<and> Request photo_request
       \<in> set (snd (async_service_handler (example_world (answers stalled_body)) send_photo
                     (upload True)))
   \<and> outcome (send (example_world (answers stalled_body)) photo_request) = Inr stalled_body
   \<and> return_response (upload True)
   \<and> resp_content_type stalled_body = ''application/json''
   \<and> resp_json stalled_body = Inl TimeoutError
   \<and> fst (async_service_handler (example_world (answers stalled_body)) send_photo (upload True))
       = Inl (HomeAssistantError (Translated ''rest_file_command'' ''timeout''
                [(''request_url'', ''https://api.example.com/upload'')]))
   \<and> Request photo_request
       \<in> set (snd (async_service_handler (example_world (answers dropped_body)) send_photo
                     (upload True)))
   \<and> outcome (send (example_world (answers dropped_body)) photo_request) = Inr dropped_body
   \<and> resp_content_type dropped_body \<noteq> ''application/json''
   \<and> resp_text dropped_body = Inl ClientError
   \<and> fst (async_service_handler (example_world (answers dropped_body)) send_photo (upload True))
       = Inl (HomeAssistantError (Translated ''rest_file_command'' ''client_error''
                [(''request_url'', ''https://api.example.com/upload'')]))
   \<and> LogError ClientError
       \<in> set (snd (async_service_handler (example_world (answers dropped_body)) send_photo
                     (upload True)))"
proof -
  have u: "req_url photo_request = ''https://api.example.com/upload''"
    by (simp add: photo_request_def)
  have a1: "Request photo_request
     \<in> set (snd (async_service_handler (example_world (refuses TimeoutError)) send_photo
                   (upload False)))"
    by (rule example_request)
  have b1: "outcome (send (example_world (refuses TimeoutError)) photo_request) = Inl TimeoutError"
    by (rule example_refusal)
  have a2: "Request photo_request
     \<in> set (snd (async_service_handler (example_world (refuses ClientError)) send_photo
                   (upload False)))"
    by (rule example_request)
  have b2: "outcome (send (example_world (refuses ClientError)) photo_request) = Inl ClientError"
    by (rule example_refusal)
  have c: "return_response (upload True)" by (simp add: upload_def)
  have a3: "Request photo_request
     \<in> set (snd (async_service_handler (example_world (answers stalled_body)) send_photo
                   (upload True)))"
    by (rule example_request)
  have b3: "outcome (send (example_world (answers stalled_body)) photo_request) = Inr stalled_body"
    by (rule example_outcome)
  have d3: "resp_content_type stalled_body = ''application/json''"
    "resp_json stalled_body = Inl TimeoutError"
    by (simp_all add: stalled_body_def example_response_def)
  have a4: "Request photo_request
     \<in> set (snd (async_service_handler (example_world (answers dropped_body)) send_photo
                   (upload True)))"
    by (rule example_request)
  have b4: "outcome (send (example_world (answers dropped_body)) photo_request) = Inr dropped_body"
    by (rule example_outcome)
  have d4: "resp_content_type dropped_body \<noteq> ''application/json''"
    "resp_text dropped_body = Inl ClientError"
    by (simp_all add: dropped_body_def example_response_def)
  have r1: "fst (async_service_handler (example_world (refuses TimeoutError)) send_photo
                  (upload False))
       = Inl (HomeAssistantError (Translated ''rest_file_command'' ''timeout''
                [(''request_url'', ''https://api.example.com/upload'')]))"
    using transport_faults_are_classified_and_never_retried
            [of "example_world (refuses TimeoutError)" send_photo "upload False"] a1 b1 u
    by fastforce
  have r2: "fst (async_service_handler (example_world (refuses ClientError)) send_photo
                  (upload False))
       = Inl (HomeAssistantError (Translated ''rest_file_command'' ''client_error''
                [(''request_url'', ''https://api.example.com/upload'')]))
     \<and> LogError ClientError
       \<in> set (snd (async_service_handler (example_world (refuses ClientError)) send_photo
                     (upload False)))"
    using transport_faults_are_classified_and_never_retried
            [of "example_world (refuses ClientError)" send_photo "upload False"] a2 b2 u
    by fastforce
  from transport_faults_are_classified_and_never_retried
         [of "example_world (answers stalled_body)" send_photo "upload True"]
  have "Request photo_request
          \<in> set (snd (async_service_handler (example_world (answers stalled_body)) send_photo
                        (upload True)))
        \<and> outcome (send (example_world (answers stalled_body)) photo_request) = Inr stalled_body
        \<and> return_response (upload True)
        \<and> ((resp_content_type stalled_body = ''application/json''
              \<and> resp_json stalled_body = Inl TimeoutError)
            \<or> (resp_content_type stalled_body \<noteq> ''application/json''
                \<and> resp_text stalled_body = Inl TimeoutError))
        \<longrightarrow> (is_TimeoutError TimeoutError \<longrightarrow>
               fst (async_service_handler (example_world (answers stalled_body)) send_photo
                      (upload True))
                 = Inl (HomeAssistantError (Translated ''rest_file_command'' ''timeout''
                          [(''request_url'', req_url photo_request)])))"
    by blast
  with a3 b3 c d3 u
  have r3: "fst (async_service_handler (example_world (answers stalled_body)) send_photo
                  (upload True))
       = Inl (HomeAssistantError (Translated ''rest_file_command'' ''timeout''
                [(''request_url'', ''https://api.example.com/upload'')]))"
    by simp
  from transport_faults_are_classified_and_never_retried
         [of "example_world (answers dropped_body)" send_photo "upload True"]
  have "Request photo_request
          \<in> set (snd (async_service_handler (example_world (answers dropped_body)) send_photo
                        (upload True)))
        \<and> outcome (send (example_world (answers dropped_body)) photo_request) = Inr dropped_body
        \<and> return_response (upload True)
        \<and> ((resp_content_type dropped_body = ''application/json''
              \<and> resp_json dropped_body = Inl ClientError)
            \<or> (resp_content_type dropped_body \<noteq> ''application/json''
                \<and> resp_text dropped_body = Inl ClientError))
        \<longrightarrow> (\<not> is_TimeoutError ClientError \<and> is_ClientError ClientError \<longrightarrow>
               fst (async_service_handler (example_world (answers dropped_body)) send_photo
                      (upload True))
                 = Inl (HomeAssistantError (Translated ''rest_file_command'' ''client_error''
                          [(''request_url'', req_url photo_request)]))
               \<and> LogError ClientError
                   \<in> set (snd (async_service_handler (example_world (answers dropped_body))
                                 send_photo (upload True))))"
    by blast
  with a4 b4 c d4 u
  have r4: "fst (async_service_handler (example_world (answers dropped_body)) send_photo
                  (upload True))
       = Inl (HomeAssistantError (Translated ''rest_file_command'' ''client_error''
                [(''request_url'', ''https://api.example.com/upload'')]))
     \<and> LogError ClientError
       \<in> set (snd (async_service_handler (example_world (answers dropped_body)) send_photo
                     (upload True)))"
    by simp
  from a1 b1 r1 a2 b2 r2 a3 b3 c d3 r3 a4 b4 d4 r4 show ?thesis by simp
qed

subsection \<open>C8: no response wanted, no body read\<close>

text \<open>
  Claim C8. When no response is wanted, the handler calls neither
  \<^verbatim>\<open>response.json()\<close> nor \<^verbatim>\<open>response.text()\<close> on any path, whatever the status
  and the content type of the response; it never returns a value other than
  \<^verbatim>\<open>None\<close>, and it returns \<^verbatim>\<open>None\<close> whenever the client session answers
  the request.
\<close>

theorem no_response_wanted_reads_no_body:
  assumes "\<not> return_response s"
  shows "ReadJson \<notin> set (snd (async_service_handler w c s))
       \<and> ReadText \<notin> set (snd (async_service_handler w c s))
       \<and> (\<forall>v. fst (async_service_handler w c s) \<noteq> Inr (Some v))
       \<and> (\<forall>req r. Request req \<in> set (snd (async_service_handler w c s))
                    \<and> outcome (send w req) = Inr r
                  \<longrightarrow> fst (async_service_handler w c s) = Inr None)"
proof -
  have noread: "ev \<notin> set (snd (async_service_handler w c s))"
    if rd: "ev = ReadJson \<or> ev = ReadText" for ev
  proof
    assume "ev \<in> set (snd (async_service_handler w c s))"
    from reads_need_a_response[OF this rd] obtain req :: request and r where
      "ev \<in> set (snd (handle_response s (req_url req) r))" by blast
    with rd show False by (auto simp: handle_response_unwanted[OF assms])
  qed
  have none: "fst (async_service_handler w c s) = Inr None"
    if "Request req \<in> set (snd (async_service_handler w c s))"
      and "outcome (send w req) = Inr r" for req r
    using handler_answered[OF that] by (simp add: handle_response_unwanted[OF assms])
  have nosome: "fst (async_service_handler w c s) \<noteq> Inr (Some v)" for v
  proof
    assume a: "fst (async_service_handler w c s) = Inr (Some v)"
    from handler_returned[OF a] obtain req r where
      "Request req \<in> set (snd (async_service_handler w c s))" "outcome (send w req) = Inr r"
      by blast
    from none[OF this] a show False by simp
  qed
  from noread[of ReadJson] noread[of ReadText] nosome none show ?thesis by blast
qed

text \<open>
  Witness for C8: a successful upload with no response wanted.
\<close>

theorem no_response_wanted_reads_no_body_witness:
  "\<not> return_response (upload False)
   \<and> Request photo_request
       \<in> set (snd (async_service_handler (example_world (answers json_ok)) send_photo
                     (upload False)))
   \<and> outcome (send (example_world (answers json_ok)) photo_request) = Inr json_ok
   \<and> fst (async_service_handler (example_world (answers json_ok)) send_photo (upload False))
       = Inr None
   \<and> ReadJson
       \<notin> set (snd (async_service_handler (example_world (answers json_ok)) send_photo
                     (upload False)))
   \<and> ReadText
       \<notin> set (snd (async_service_handler (example_world (answers json_ok)) send_photo
                     (upload False)))"
proof -
  have a: "\<not> return_response (upload False)" by (simp add: upload_def)
  have b: "Request photo_request
       \<in> set (snd (async_service_handler (example_world (answers json_ok)) send_photo
                     (upload False)))"
    by (rule example_request)
  have c: "outcome (send (example_world (answers json_ok)) photo_request) = Inr json_ok"
    by (rule example_outcome)
  from no_response_wanted_reads_no_body[OF a, of "example_world (answers json_ok)" send_photo]
    a b c
  show ?thesis by blast
qed

subsection \<open>C9: the configured content type overrides the templated header\<close>

lemma map_of_dict_set: "map_of (dict_set k v ps) = (map_of ps)(k \<mapsto> v)"
  by (induction ps) (auto simp: fun_eq_iff)

lemma keys_dict_set:
  "map fst (dict_set k v ps) = (if k \<in> fst ` set ps then map fst ps else map fst ps @ [k])"
  by (induction ps) auto

lemma distinct_dict_set: "distinct (map fst ps) \<Longrightarrow> distinct (map fst (dict_set k v ps))"
  by (auto simp: keys_dict_set)

lemma dict_set_not_empty [simp]: "dict_set k v ps \<noteq> []"
  by (cases ps) auto

lemma render_headers_distinct:
  "render_headers w d ts hs = (Inr rendered, evs) \<Longrightarrow> distinct (map fst hs)
     \<Longrightarrow> distinct (map fst rendered)"
proof (induction ts arbitrary: hs evs)
  case Nil
  then show ?case by simp
next
  case (Cons a ts)
  obtain n t where a: "a = (n, t)" by (cases a)
  show ?case
  proof (cases "render w t d")
    case (Inl e)
    with Cons.prems a show ?thesis by simp
  next
    case (Inr v)
    obtain r' evs' where rec: "render_headers w d ts (dict_set n v hs) = (r', evs')"
      by (cases "render_headers w d ts (dict_set n v hs)")
    with Cons.prems(1) a Inr have "r' = Inr rendered" by simp
    with rec have "render_headers w d ts (dict_set n v hs) = (Inr rendered, evs')" by simp
    from Cons.IH[OF this distinct_dict_set[OF Cons.prems(2)]] show ?thesis .
  qed
qed

text \<open>
  Claim C9, as amended. When the command has a content type that is not the empty
  string, every request is made with the headers obtained by rendering all header
  templates and then storing the content type under \<^verbatim>\<open>Content-Type\<close>: the only
  value sent under that name is the configured one, whatever a template of the same name
  rendered to, and the other headers are as rendered. (An empty content type is false in
  \<^verbatim>\<open>if content_type:\<close> and overrides nothing.)
\<close>

theorem content_type_override_is_what_is_sent:
  assumes "conf_content_type c = Some ct" and "ct \<noteq> ''''"
    and "Request req \<in> set (snd (async_service_handler w c s))"
  shows "\<exists>rendered evs hs.
           render_headers w (data s) (template_headers_of c) [] = (Inr rendered, evs)
           \<and> hs = dict_set ''Content-Type'' ct rendered
           \<and> req_headers req = Some hs
           \<and> map_of hs ''Content-Type'' = Some ct
           \<and> (\<forall>v. (''Content-Type'', v) \<in> set hs \<longrightarrow> v = ct)
           \<and> (\<forall>k. k \<noteq> ''Content-Type'' \<longrightarrow> map_of hs k = map_of rendered k)"
proof -
  from handler_request[OF assms(3)] obtain u rendered evs h where
    rh: "render_headers w (data s) (template_headers_of c) [] = (Inr rendered, evs)"
    and req: "req = make_request c u h (apply_content_type (conf_content_type c) rendered)"
    by blast
  let ?hs = "dict_set ''Content-Type'' ct rendered"
  have act: "apply_content_type (conf_content_type c) rendered = ?hs"
    using assms(1,2) by (simp add: apply_content_type_def CONTENT_TYPE_def)
  have sent: "req_headers req = Some ?hs"
    using req act by (simp add: or_None_def)
  have m: "map_of ?hs ''Content-Type'' = Some ct" by (simp add: map_of_dict_set)
  have d: "distinct (map fst ?hs)"
    using render_headers_distinct[OF rh] by (simp add: distinct_dict_set)
  have only: "v = ct" if "(''Content-Type'', v) \<in> set ?hs" for v
    using map_of_is_SomeI[OF d that] m by simp
  have others: "map_of ?hs k = map_of rendered k" if "k \<noteq> ''Content-Type''" for k
    using that by (simp add: map_of_dict_set)
  from rh sent m only others show ?thesis by blast
qed

lemma example_typed:
  "async_service_handler (example_world (answers json_ok)) (typed_photo ct) (upload False) =
     (Inr None,
      [RenderUrl ''https://api.example.com/upload'', PathExists (PStr ''/config/www/image.jpg''),
       RenderHeader ''Content-Type'' ''text/plain'', FileOpen (PStr ''/config/www/image.jpg''),
       Request (make_request (typed_photo ct) ''https://api.example.com/upload'' 3
                  (apply_content_type (Some ct) [(''Content-Type'', ''text/plain'')])),
       FileClose 3, Log Debug ''https://api.example.com/upload'' 200, ExitResponse])"
proof -
  let ?w = "example_world (answers json_ok)"
  let ?hs = "apply_content_type (Some ct) [(''Content-Type'', ''text/plain'')]"
  have a: "render ?w (conf_url (typed_photo ct)) (data (upload False))
             = Inr ''https://api.example.com/upload''"
    by (simp add: example_world_def example_render_def typed_photo_def send_photo_def)
  have b: "dict_get (data (upload False)) ''file'' = PStr ''/config/www/image.jpg''"
    by (simp add: upload_def dict_get_def)
  have c: "stat_ok ?w ''/config/www/image.jpg''"
    by (simp add: example_world_def example_stat_def)
  have d: "render_headers ?w (data (upload False)) (template_headers_of (typed_photo ct)) []
             = (Inr [(''Content-Type'', ''text/plain'')],
                [RenderHeader ''Content-Type'' ''text/plain''])"
    by (simp add: template_headers_of_def typed_photo_def example_world_def example_render_def)
  have e: "conf_content_type (typed_photo ct) = Some ct" by (simp add: typed_photo_def)
  have f: "try_send ?w (typed_photo ct) (upload False) ''https://api.example.com/upload''
             (PStr ''/config/www/image.jpg'') ?hs =
           (Inr None,
            FileOpen (PStr ''/config/www/image.jpg'')
              # transport_events
                  (make_request (typed_photo ct) ''https://api.example.com/upload'' 3 ?hs) 3
                  (send ?w (make_request (typed_photo ct) ''https://api.example.com/upload'' 3 ?hs))
              @ [log_status json_ok, ExitResponse])"
    by (rule try_send_no_response_wanted[OF example_opens])
       (simp_all add: example_outcome upload_def)
  have g: "log_status json_ok = Log Debug ''https://api.example.com/upload'' 200"
    by (simp add: log_status_def json_ok_def example_response_def BAD_REQUEST_def)
  show ?thesis
    unfolding handler_reached[OF a b c d] e f
    by (simp add: typed_photo_def send_photo_def transport_events_def example_sends answers_def g)
qed

text \<open>
  Witness for C9: a template \<^verbatim>\<open>Content-Type: text/plain\<close> and the content type
  \<^verbatim>\<open>image/jpeg\<close>.
\<close>

theorem content_type_override_is_what_is_sent_witness:
  "conf_content_type (typed_photo ''image/jpeg'') = Some ''image/jpeg''
   \<and> ''image/jpeg'' \<noteq> ''''
   \<and> template_headers_of (typed_photo ''image/jpeg'') = [(''Content-Type'', ''text/plain'')]
   \<and> Request (make_request (typed_photo ''image/jpeg'') ''https://api.example.com/upload'' 3
                [(''Content-Type'', ''image/jpeg'')])
       \<in> set (snd (async_service_handler (example_world (answers json_ok))
                     (typed_photo ''image/jpeg'') (upload False)))
   \<and> (\<exists>hs. req_headers (make_request (typed_photo ''image/jpeg'')
                          ''https://api.example.com/upload'' 3
                          [(''Content-Type'', ''image/jpeg'')]) = Some hs
             \<and> map_of hs ''Content-Type'' = Some ''image/jpeg'')"
proof -
  have a: "conf_content_type (typed_photo ''image/jpeg'') = Some ''image/jpeg''"
    by (simp add: typed_photo_def)
  have b: "''image/jpeg'' \<noteq> ''''" by simp
  have c: "Request (make_request (typed_photo ''image/jpeg'') ''https://api.example.com/upload'' 3
                [(''Content-Type'', ''image/jpeg'')])
       \<in> set (snd (async_service_handler (example_world (answers json_ok))
                     (typed_photo ''image/jpeg'') (upload False)))"
    by (simp add: example_typed apply_content_type_def CONTENT_TYPE_def)
  have d: "template_headers_of (typed_photo ''image/jpeg'') = [(''Content-Type'', ''text/plain'')]"
    by (simp add: template_headers_of_def typed_photo_def)
  from content_type_override_is_what_is_sent[OF a b c]
  have "\<exists>hs. req_headers (make_request (typed_photo ''image/jpeg'')
                          ''https://api.example.com/upload'' 3
                          [(''Content-Type'', ''image/jpeg'')]) = Some hs
             \<and> map_of hs ''Content-Type'' = Some ''image/jpeg''"
    by blast
  with a b c d show ?thesis by blast
qed

text \<open>
  Counterexample to C9 as stated: a template \<^verbatim>\<open>Content-Type: text/plain\<close> and a
  content type set to the empty string; the request carries \<^verbatim>\<open>text/plain\<close>.
\<close>

theorem empty_content_type_does_not_override:
  "conf_content_type (typed_photo '''') = Some ''''
   \<and> template_headers_of (typed_photo '''') = [(''Content-Type'', ''text/plain'')]
   \<and> async_service_handler (example_world (answers json_ok)) (typed_photo '''') (upload False) =
       (Inr None,
        [RenderUrl ''https://api.example.com/upload'', PathExists (PStr ''/config/www/image.jpg''),
         RenderHeader ''Content-Type'' ''text/plain'', FileOpen (PStr ''/config/www/image.jpg''),
         Request (make_request (typed_photo '''') ''https://api.example.com/upload'' 3
                    [(''Content-Type'', ''text/plain'')]),
         FileClose 3, Log Debug ''https://api.example.com/upload'' 200, ExitResponse])
   \<and> req_headers (make_request (typed_photo '''') ''https://api.example.com/upload'' 3
                     [(''Content-Type'', ''text/plain'')])
       = Some [(''Content-Type'', ''text/plain'')]"
  by (simp add: example_typed apply_content_type_def or_None_def)
     (simp add: typed_photo_def template_headers_of_def)

subsection \<open>C10: no headers are passed as \<^verbatim>\<open>None\<close>\<close>

text \<open>
  Claim C10. For a command with no header templates and no content type, every request
  the handler makes has \<^verbatim>\<open>headers=None\<close> (\<^verbatim>\<open>headers or None\<close> with the empty
  dictionary); and the request is made, with no headers, whenever the URL template
  renders, the file exists and can be opened.
\<close>

theorem no_headers_are_passed_as_absent:
  assumes "template_headers_of c = []" and "conf_content_type c = None"
  shows "(\<forall>req. Request req \<in> set (snd (async_service_handler w c s))
                 \<longrightarrow> req_headers req = None)
       \<and> (\<forall>u p h. render w (conf_url c) (data s) = Inr u \<and> data s ''file'' = Some (PStr p)
                    \<and> stat_ok w p \<and> open_rb w p = Inr h
                  \<longrightarrow> Request (make_request c u h []) \<in> set (snd (async_service_handler w c s))
                      \<and> req_headers (make_request c u h []) = None)"
proof (intro conjI allI impI)
  fix req
  assume "Request req \<in> set (snd (async_service_handler w c s))"
  from handler_request[OF this] assms obtain u h where
    "req = make_request c u h (apply_content_type None [])"
    by auto
  then show "req_headers req = None" by (simp add: apply_content_type_def or_None_def)
next
  fix u p h
  assume a: "render w (conf_url c) (data s) = Inr u \<and> data s ''file'' = Some (PStr p)
                    \<and> stat_ok w p \<and> open_rb w p = Inr h"
  have rh: "render_headers w (data s) (template_headers_of c) [] = (Inr [], [])"
    using assms(1) by simp
  have fp: "dict_get (data s) ''file'' = PStr p" using a by (simp add: dict_get_def)
  from a have u: "render w (conf_url c) (data s) = Inr u" and st: "stat_ok w p"
    and op: "open_rb w p = Inr h" by simp_all
  from handler_request_issued[OF u fp st rh op] assms(2)
  show "Request (make_request c u h []) \<in> set (snd (async_service_handler w c s))"
    by (auto simp: transport_events_def apply_content_type_def)
next
  fix u p h
  show "req_headers (make_request c u h []) = None" by (simp add: or_None_def)
qed

text \<open>
  Witness for C10: the command \<^verbatim>\<open>send_photo\<close>.
\<close>

theorem no_headers_are_passed_as_absent_witness:
  "template_headers_of send_photo = [] \<and> conf_content_type send_photo = None
   \<and> Request photo_request
       \<in> set (snd (async_service_handler (example_world (answers json_ok)) send_photo
                     (upload False)))
   \<and> req_headers photo_request = None"
proof -
  have a: "template_headers_of send_photo = []"
    by (simp add: template_headers_of_def send_photo_def)
  have b: "conf_content_type send_photo = None" by (simp add: send_photo_def)
  have c: "Request photo_request
       \<in> set (snd (async_service_handler (example_world (answers json_ok)) send_photo
                     (upload False)))"
    by (rule example_request)
  from no_headers_are_passed_as_absent[OF a b, of "example_world (answers json_ok)" "upload False"] c
  have "req_headers photo_request = None" by blast
  with a b c show ?thesis by simp
qed

subsection \<open>C3: a reload and the reserved reload service\<close>

text \<open>
  \<^verbatim>\<open>reload_service_handler\<close> removes every service of the domain but \<^verbatim>\<open>reload\<close>
  and then registers the commands of the new configuration. A configuration that cannot
  be parsed leaves the registry as it is. For a configuration that has the domain's key,
  the names registered afterwards are \<^verbatim>\<open>reload\<close> (if it was registered) and the
  names of the new commands. A parsed configuration without the domain's key raises
  \<^verbatim>\<open>KeyError\<close> after the removals, which leaves the registry with the reload service
  alone.
\<close>

lemma names_async_remove: "fst ` set (async_remove name reg) = fst ` set reg - {name}"
  by (auto simp: async_remove_def image_iff)

lemma names_remove_existing:
  "fst ` set (remove_existing names reg) = fst ` set reg - (set names - {SERVICE_RELOAD})"
  by (induction names arbitrary: reg) (auto simp: names_async_remove)

lemma names_dict_set: "fst ` set (dict_set k v ps) = insert k (fst ` set ps)"
  by (induction ps) auto

lemma names_register_commands:
  "fst ` set (register_commands commands reg) = fst ` set reg \<union> fst ` set commands"
  by (induction commands reg rule: register_commands.induct)
     (auto simp: async_register_rest_command_def names_dict_set)

lemma reload_unparsed_configuration: "reload_service_handler None reg = (Inr (), reg)"
  by (simp add: reload_service_handler_def)

lemma reload_service_names:
  "conf DOMAIN = Some commands \<Longrightarrow>
     fst (reload_service_handler (Some conf) reg) = Inr ()
     \<and> fst ` set (snd (reload_service_handler (Some conf) reg))
         = (fst ` set reg \<inter> {SERVICE_RELOAD}) \<union> fst ` set commands"
  by (auto simp: reload_service_handler_def Let_def names_register_commands names_remove_existing)

lemma reload_without_domain_key:
  "conf DOMAIN = None \<Longrightarrow>
     reload_service_handler (Some conf) reg = (Inl KeyError, remove_existing (map fst reg) reg)"
  by (simp add: reload_service_handler_def Let_def)

lemma reload_without_commands_example:
  "reload_service_handler (Some no_commands)
       [(''send_photo'', RestCommand send_photo), (''reload'', ReloadService)]
     = (Inl KeyError, [(''reload'', ReloadService)])"
  by (simp add: reload_service_handler_def Let_def no_commands_def SERVICE_RELOAD_def
      async_remove_def)

text \<open>
  Claim C3 at the failing input: a configuration with the commands \<^verbatim>\<open>send_photo\<close>
  and \<^verbatim>\<open>reload\<close>. \<^verbatim>\<open>async_setup\<close> registers the reload service last, so
  \<^verbatim>\<open>reload\<close> is the reload service after setup. A reload with the same configuration
  keeps the reload service through the removals and then registers the command
  \<^verbatim>\<open>reload\<close> over it: the registry afterwards is the new commands without the reserved
  reload entry, and no further reload is possible.
\<close>

theorem reload_replaces_the_reload_service:
  "async_setup reload_named
     = Inr [(''send_photo'', RestCommand send_photo), (''reload'', ReloadService)]
   \<and> reload_service_handler (Some reload_named)
         [(''send_photo'', RestCommand send_photo), (''reload'', ReloadService)]
       = (Inr (), [(''reload'', RestCommand send_photo), (''send_photo'', RestCommand send_photo)])
   \<and> map_of (snd (reload_service_handler (Some reload_named)
                     [(''send_photo'', RestCommand send_photo), (''reload'', ReloadService)]))
         ''reload''
       \<noteq> Some ReloadService"
  by (simp add: reload_service_handler_def async_setup_def async_register_rest_command_def
      SERVICE_RELOAD_def async_remove_def reload_named_def Let_def)

end
